theory Spec2Isabelle
  imports Main "HOL-Library.Word"
begin

unbundle bit_operations_syntax

section \<open>IPv6 output node: modules/ip6/datapath/ip6_output.c\<close>

subsection \<open>Edges and the per-interface-type override table\<close>

type_synonym rte_edge_t = "16 word"

definition ETH_OUTPUT :: rte_edge_t where "ETH_OUTPUT = 0"
definition NO_ROUTE :: rte_edge_t where "NO_ROUTE = 1"
definition ERROR :: rte_edge_t where "ERROR = 2"
definition QUEUE_FULL :: rte_edge_t where "QUEUE_FULL = 3"
definition EDGE_COUNT :: rte_edge_t where "EDGE_COUNT = 4"

text \<open>\<^verbatim>\<open>static rte_edge_t edges[128] = {ETH_OUTPUT};\<close> The table is a list; its
  dimension \<^verbatim>\<open>ARRAY_DIM(edges)\<close> is the length of the list.\<close>

definition edges_init :: "rte_edge_t list" where
  "edges_init = replicate 128 ETH_OUTPUT"

text \<open>The two \<^verbatim>\<open>ABORT\<close> calls of \<^verbatim>\<open>ip6_output_add_tunnel\<close> end the process; they are
  the two error values.\<close>

datatype abort = Invalid_iface_type | Already_registered

text \<open>\<^verbatim>\<open>ip6_output_add_tunnel\<close>. The macro \<^verbatim>\<open>GR_IFACE_TYPE_UNDEF\<close> is declared in a
  header that is not among the sources: it is the parameter \<open>undef\<close>. The edge returned by
  \<^verbatim>\<open>gr_node_attach_parent("ip6_output", next_node)\<close> is the parameter \<open>attached\<close>.\<close>

definition ip6_output_add_tunnel ::
  "16 word \<Rightarrow> rte_edge_t list \<Rightarrow> 16 word \<Rightarrow> rte_edge_t \<Rightarrow> abort + rte_edge_t list" where
  "ip6_output_add_tunnel undef edges iface_type_id attached =
     (if iface_type_id = undef \<or> unat iface_type_id \<ge> length edges
      then Inl Invalid_iface_type
      else if edges ! unat iface_type_id \<noteq> ETH_OUTPUT
      then Inl Already_registered
      else Inr (edges[unat iface_type_id := attached]))"

subsection \<open>Packets, next hops and interfaces\<close>

type_synonym mbuf_ref = nat
type_synonym nh_ref = nat

text \<open>\<^verbatim>\<open>struct rte_ipv6_addr\<close> and \<^verbatim>\<open>struct rte_ether_addr\<close> are byte arrays.\<close>

type_synonym ipv6_addr = "8 word list"
type_synonym ether_addr = "8 word list"

text \<open>DPDK's \<^verbatim>\<open>rte_ipv6_addr_is_mcast\<close>: the first byte is \<^verbatim>\<open>0xff\<close>.\<close>

definition rte_ipv6_addr_is_mcast :: "ipv6_addr \<Rightarrow> bool" where
  "rte_ipv6_addr_is_mcast a = (case a of [] \<Rightarrow> False | b # _ \<Rightarrow> b = 0xff)"

definition rte_ipv6_addr_eq :: "ipv6_addr \<Rightarrow> ipv6_addr \<Rightarrow> bool" where
  "rte_ipv6_addr_eq a b = (a = b)"

text \<open>DPDK's \<^verbatim>\<open>rte_ether_mcast_from_ipv6\<close>: \<^verbatim>\<open>33:33\<close> followed by the last four bytes
  of the sixteen-byte address.\<close>

definition rte_ether_mcast_from_ipv6 :: "ipv6_addr \<Rightarrow> ether_addr" where
  "rte_ether_mcast_from_ipv6 a = 0x33 # 0x33 # take 4 (drop 12 a)"

definition RTE_ETHER_TYPE_IPV6 :: "16 word" where
  "RTE_ETHER_TYPE_IPV6 = 0x86DD"

text \<open>\<^verbatim>\<open>RTE_BE16\<close>: the 16-bit value whose bytes in memory are those of the argument in
  network order. On a little-endian host the two bytes are swapped; the host's byte order
  is the parameter \<open>little_endian\<close>. \<open>mem_bytes16\<close> reads the two bytes of a stored
  \<^verbatim>\<open>uint16_t\<close> in address order.\<close>

definition RTE_BE16 :: "bool \<Rightarrow> 16 word \<Rightarrow> 16 word" where
  "RTE_BE16 little_endian v =
     (if little_endian then push_bit 8 v OR drop_bit 8 v else v)"

definition mem_bytes16 :: "bool \<Rightarrow> 16 word \<Rightarrow> 8 word list" where
  "mem_bytes16 little_endian v =
     (if little_endian then [ucast v, ucast (drop_bit 8 v)]
      else [ucast (drop_bit 8 v), ucast v])"

text \<open>\<^verbatim>\<open>struct iface\<close> and \<^verbatim>\<open>struct nexthop6\<close> are declared in headers that are not among
  the sources; the records have the fields the node uses. An interface type id is a
  \<^verbatim>\<open>uint16_t\<close>, as the parameter of \<^verbatim>\<open>ip6_output_add_tunnel\<close>; VRF id, interface id and
  flags are taken as 16-bit values. \<^verbatim>\<open>held_pkts_num\<close> is a natural number: the node only
  increments it below \<^verbatim>\<open>IP6_NH_MAX_HELD_PKTS\<close>, a value of its own type, so that the
  increment does not wrap. \<^verbatim>\<open>held_pkts_head\<close> and \<^verbatim>\<open>held_pkts_tail\<close> are pointers to packets,
  \<open>None\<close> for NULL.\<close>

record iface =
  id_iface :: "16 word"
  type_id :: "16 word"

record nexthop6 =
  vrf_id :: "16 word"
  iface_id :: "16 word"
  ip :: ipv6_addr
  lladdr :: ether_addr
  flags :: "16 word"
  held_pkts_head :: "mbuf_ref option"
  held_pkts_tail :: "mbuf_ref option"
  held_pkts_num :: nat

record eth_output_mbuf_data =
  dst :: ether_addr
  ether_type :: "16 word"
  iface :: iface

text \<open>What the node reads and writes of a packet: the destination of its IPv6 header,
  \<^verbatim>\<open>ip6_output_mbuf_data(mbuf)->nh\<close>, \<^verbatim>\<open>eth_output_mbuf_data(mbuf)\<close> and
  \<^verbatim>\<open>queue_mbuf_data(mbuf)->next\<close> (field \<open>q_next\<close>).\<close>

record mbuf =
  dst_addr :: ipv6_addr
  nh :: "nh_ref option"
  eth_data :: "eth_output_mbuf_data option"
  q_next :: "mbuf_ref option"

text \<open>The flag bits and the bound of the hold queue are macros of
  \<^verbatim>\<open>gr_ip6_control.h\<close>, which is not among the sources: they are parameters.\<close>

record ip6_consts =
  GR_IP6_NH_F_REACHABLE :: "16 word"
  GR_IP6_NH_F_PENDING :: "16 word"
  GR_IP6_NH_F_LINK :: "16 word"
  IP6_NH_MAX_HELD_PKTS :: nat
  little_endian_host :: bool

text \<open>The state of the node: the packets and next hops it can reach through pointers, the
  control-plane tables behind \<^verbatim>\<open>ip6_nexthop_new\<close> and \<^verbatim>\<open>ip6_route_insert\<close> (abstract, of
  type \<open>'c\<close>), and the calls it has made to \<^verbatim>\<open>rte_node_enqueue_x1\<close> and
  \<^verbatim>\<open>ip6_nexthop_solicit\<close>, oldest first.\<close>

record 'c ip6_state =
  mbuf_of :: "mbuf_ref \<Rightarrow> mbuf"
  nh_of :: "nh_ref \<Rightarrow> nexthop6"
  ctl :: 'c
  enqueued :: "(rte_edge_t \<times> mbuf_ref) list"
  solicited :: "nh_ref list"

text \<open>The functions of the repository that the node calls and that are not among the
  sources are parameters: \<^verbatim>\<open>iface_from_id\<close>; \<^verbatim>\<open>ip6_nexthop_new(vrf_id, iface_id, ip)\<close>,
  which returns the new next hop or NULL and may change the next hops and the control
  tables; \<^verbatim>\<open>ip6_route_insert(vrf_id, ip, depth, nh)\<close>, which returns a negative value on
  failure. Neither receives a packet.\<close>

record 'c ip6_ops =
  iface_from_id :: "16 word \<Rightarrow> iface option"
  ip6_nexthop_new ::
    "(nh_ref \<Rightarrow> nexthop6) \<times> 'c \<Rightarrow> 16 word \<Rightarrow> 16 word \<Rightarrow> ipv6_addr
       \<Rightarrow> nh_ref option \<times> (nh_ref \<Rightarrow> nexthop6) \<times> 'c"
  ip6_route_insert ::
    "(nh_ref \<Rightarrow> nexthop6) \<times> 'c \<Rightarrow> 16 word \<Rightarrow> ipv6_addr \<Rightarrow> 8 word \<Rightarrow> nh_ref
       \<Rightarrow> int \<times> (nh_ref \<Rightarrow> nexthop6) \<times> 'c"

definition RTE_IPV6_MAX_DEPTH :: "8 word" where
  "RTE_IPV6_MAX_DEPTH = 128"

subsection \<open>The hold queue\<close>

datatype hold_status_t = OK_TO_SEND | HELD | HOLD_QUEUE_FULL

definition set_q_next :: "'c ip6_state \<Rightarrow> mbuf_ref \<Rightarrow> mbuf_ref option \<Rightarrow> 'c ip6_state" where
  "set_q_next s m v = s\<lparr>mbuf_of := (mbuf_of s)(m := (mbuf_of s m)\<lparr>q_next := v\<rparr>)\<rparr>"

definition nh_upd :: "'c ip6_state \<Rightarrow> nh_ref \<Rightarrow> (nexthop6 \<Rightarrow> nexthop6) \<Rightarrow> 'c ip6_state" where
  "nh_upd s r f = s\<lparr>nh_of := (nh_of s)(r := f (nh_of s r))\<rparr>"

text \<open>\<^verbatim>\<open>maybe_hold_packet\<close>. The result is \<open>None\<close> where the C dereferences a NULL
  \<^verbatim>\<open>held_pkts_tail\<close>. The spin lock is taken and released around the list update; the
  model is sequential.\<close>

definition maybe_hold_packet ::
  "ip6_consts \<Rightarrow> 'c ip6_state \<Rightarrow> nh_ref \<Rightarrow> mbuf_ref \<Rightarrow> (hold_status_t \<times> 'c ip6_state) option" where
  "maybe_hold_packet K s r m =
     (if flags (nh_of s r) AND GR_IP6_NH_F_REACHABLE K \<noteq> 0
         \<or> rte_ipv6_addr_is_mcast (dst_addr (mbuf_of s m))
      then Some (OK_TO_SEND, s)
      else if held_pkts_num (nh_of s r) < IP6_NH_MAX_HELD_PKTS K then
        (let s1 = set_q_next s m None in
         case (if held_pkts_head (nh_of s1 r) = None
               then Some (nh_upd s1 r (\<lambda>n. n\<lparr>held_pkts_head := Some m\<rparr>))
               else (case held_pkts_tail (nh_of s1 r) of
                       None \<Rightarrow> None
                     | Some t \<Rightarrow> Some (set_q_next s1 t (Some m))))
         of None \<Rightarrow> None
          | Some s2 \<Rightarrow>
             (let s3 = nh_upd s2 r (\<lambda>n. n\<lparr>held_pkts_tail := Some m,
                                          held_pkts_num := held_pkts_num n + 1\<rparr>);
                  s4 = (if flags (nh_of s3 r) AND GR_IP6_NH_F_PENDING K = 0
                        then nh_upd (s3\<lparr>solicited := solicited s3 @ [r]\<rparr>) r
                               (\<lambda>n. n\<lparr>flags := flags n OR GR_IP6_NH_F_PENDING K\<rparr>)
                        else s3)
              in Some (HELD, s4)))
      else Some (HOLD_QUEUE_FULL, s))"

text \<open>The packets of a hold queue, read from a pointer along \<^verbatim>\<open>next\<close> until NULL.\<close>

fun held_chain :: "(mbuf_ref \<Rightarrow> mbuf) \<Rightarrow> mbuf_ref option \<Rightarrow> mbuf_ref list \<Rightarrow> bool" where
  "held_chain h p [] = (p = None)"
| "held_chain h p (m # ms) = (p = Some m \<and> held_chain h (q_next (h m)) ms)"

text \<open>A next hop holds the packets \<open>ms\<close>, in order: the chain from \<^verbatim>\<open>held_pkts_head\<close> is
  \<open>ms\<close>, no packet is queued twice, \<^verbatim>\<open>held_pkts_tail\<close> is the last one and
  \<^verbatim>\<open>held_pkts_num\<close> counts them.\<close>

definition holds :: "'c ip6_state \<Rightarrow> nh_ref \<Rightarrow> mbuf_ref list \<Rightarrow> bool" where
  "holds s r ms =
     (held_chain (mbuf_of s) (held_pkts_head (nh_of s r)) ms \<and> distinct ms
      \<and> (ms \<noteq> [] \<longrightarrow> held_pkts_tail (nh_of s r) = Some (last ms))
      \<and> held_pkts_num (nh_of s r) = length ms)"

subsection \<open>Processing a burst\<close>

definition rte_node_enqueue_x1 :: "'c ip6_state \<Rightarrow> rte_edge_t \<Rightarrow> mbuf_ref \<Rightarrow> 'c ip6_state" where
  "rte_node_enqueue_x1 s edge m = s\<lparr>enqueued := enqueued s @ [(edge, m)]\<rparr>"

text \<open>Lines 107 to 127 of \<^verbatim>\<open>ip6_output_process\<close>: the on-demand host route. The result is
  the next hop to go on with, or \<open>None\<close> where the C sets \<^verbatim>\<open>edge = ERROR\<close>.\<close>

definition ip6_output_promote ::
  "'c ip6_ops \<Rightarrow> ip6_consts \<Rightarrow> 'c ip6_state \<Rightarrow> nh_ref \<Rightarrow> mbuf_ref \<Rightarrow> nh_ref option \<times> 'c ip6_state" where
  "ip6_output_promote ops K s r m =
     (let d = dst_addr (mbuf_of s m) in
      if flags (nh_of s r) AND GR_IP6_NH_F_LINK K \<noteq> 0 \<and> \<not> rte_ipv6_addr_is_mcast d
         \<and> \<not> rte_ipv6_addr_eq d (ip (nh_of s r))
      then
        (case ip6_nexthop_new ops (nh_of s, ctl s) (vrf_id (nh_of s r)) (iface_id (nh_of s r)) d of
           (None, h1, c1) \<Rightarrow> (None, s\<lparr>nh_of := h1, ctl := c1\<rparr>)
         | (Some remote, h1, c1) \<Rightarrow>
             (case ip6_route_insert ops (h1, c1) (vrf_id (h1 r)) d RTE_IPV6_MAX_DEPTH remote of
                (rc, h2, c2) \<Rightarrow>
                  if rc < 0 then (None, s\<lparr>nh_of := h2, ctl := c2\<rparr>)
                  else (Some remote,
                        s\<lparr>nh_of := h2, ctl := c2,
                          mbuf_of := (mbuf_of s)(m := (mbuf_of s m)\<lparr>nh := Some remote\<rparr>)\<rparr>)))
      else (Some r, s))"

text \<open>Lines 129 to 153: the \<^verbatim>\<open>switch\<close> on \<^verbatim>\<open>maybe_hold_packet\<close>, the ethernet metadata,
  the enqueue. \<open>sent\<close> is the \<^verbatim>\<open>uint16_t\<close> counter.\<close>

definition ip6_output_hold ::
  "ip6_consts \<Rightarrow> 'c ip6_state \<times> 16 word \<Rightarrow> iface \<Rightarrow> rte_edge_t \<Rightarrow> nh_ref \<Rightarrow> mbuf_ref
     \<Rightarrow> ('c ip6_state \<times> 16 word) option" where
  "ip6_output_hold K acc ifc edge r m =
     (case maybe_hold_packet K (fst acc) r m of
        None \<Rightarrow> None
      | Some (status, s1) \<Rightarrow>
          (case status of
             HELD \<Rightarrow> Some (s1, snd acc)
           | HOLD_QUEUE_FULL \<Rightarrow> Some (rte_node_enqueue_x1 s1 QUEUE_FULL m, snd acc)
           | OK_TO_SEND \<Rightarrow>
               (let d = dst_addr (mbuf_of s1 m);
                    e = \<lparr>dst = (if rte_ipv6_addr_is_mcast d then rte_ether_mcast_from_ipv6 d
                                else lladdr (nh_of s1 r)),
                         ether_type = RTE_BE16 (little_endian_host K) RTE_ETHER_TYPE_IPV6,
                         iface = ifc\<rparr>;
                    s2 = s1\<lparr>mbuf_of := (mbuf_of s1)(m := (mbuf_of s1 m)\<lparr>eth_data := Some e\<rparr>)\<rparr>
                in Some (rte_node_enqueue_x1 s2 edge m, snd acc + 1))))"

text \<open>One turn of the \<^verbatim>\<open>for\<close> loop. The result is \<open>None\<close> where the C reads
  \<^verbatim>\<open>edges[iface->type_id]\<close> beyond the table, or dereferences NULL in
  \<^verbatim>\<open>maybe_hold_packet\<close>.\<close>

definition ip6_output_packet ::
  "'c ip6_ops \<Rightarrow> ip6_consts \<Rightarrow> rte_edge_t list \<Rightarrow> 'c ip6_state \<times> 16 word \<Rightarrow> mbuf_ref
     \<Rightarrow> ('c ip6_state \<times> 16 word) option" where
  "ip6_output_packet ops K edges acc m =
     (case nh (mbuf_of (fst acc) m) of
        None \<Rightarrow> Some (rte_node_enqueue_x1 (fst acc) NO_ROUTE m, snd acc)
      | Some r \<Rightarrow>
          (case iface_from_id ops (iface_id (nh_of (fst acc) r)) of
             None \<Rightarrow> Some (rte_node_enqueue_x1 (fst acc) ERROR m, snd acc)
           | Some ifc \<Rightarrow>
               if unat (type_id ifc) \<ge> length edges then None
               else
                 (let edge = edges ! unat (type_id ifc) in
                  if edge \<noteq> ETH_OUTPUT
                  then Some (rte_node_enqueue_x1 (fst acc) edge m, snd acc)
                  else
                    (case ip6_output_promote ops K (fst acc) r m of
                       (None, s1) \<Rightarrow> Some (rte_node_enqueue_x1 s1 ERROR m, snd acc)
                     | (Some r1, s1) \<Rightarrow> ip6_output_hold K (s1, snd acc) ifc edge r1 m))))"

fun ip6_output_loop ::
  "'c ip6_ops \<Rightarrow> ip6_consts \<Rightarrow> rte_edge_t list \<Rightarrow> mbuf_ref list \<Rightarrow> 'c ip6_state \<times> 16 word
     \<Rightarrow> ('c ip6_state \<times> 16 word) option" where
  "ip6_output_loop ops K edges [] acc = Some acc"
| "ip6_output_loop ops K edges (m # ms) acc =
     (case ip6_output_packet ops K edges acc m of
        None \<Rightarrow> None
      | Some acc1 \<Rightarrow> ip6_output_loop ops K edges ms acc1)"

definition ip6_output_process ::
  "'c ip6_ops \<Rightarrow> ip6_consts \<Rightarrow> rte_edge_t list \<Rightarrow> 'c ip6_state \<Rightarrow> mbuf_ref list
     \<Rightarrow> (16 word \<times> 'c ip6_state) option" where
  "ip6_output_process ops K edges s objs =
     (case ip6_output_loop ops K edges objs (s, 0) of
        None \<Rightarrow> None
      | Some (s1, sent) \<Rightarrow> Some (sent, s1))"

text \<open>Every next hop holds at most \<^verbatim>\<open>IP6_NH_MAX_HELD_PKTS\<close> packets; and the two
  control-plane functions keep it so (they are parameters: this is what the invariant of
  the node asks of them).\<close>

definition held_bounded :: "ip6_consts \<Rightarrow> (nh_ref \<Rightarrow> nexthop6) \<Rightarrow> bool" where
  "held_bounded K h = (\<forall>x. held_pkts_num (h x) \<le> IP6_NH_MAX_HELD_PKTS K)"

definition ops_keep_bound :: "'c ip6_ops \<Rightarrow> ip6_consts \<Rightarrow> bool" where
  "ops_keep_bound ops K =
     (\<forall>h c v i a d r.
        held_bounded K h \<longrightarrow>
          held_bounded K (fst (snd (ip6_nexthop_new ops (h, c) v i a)))
          \<and> held_bounded K (fst (snd (ip6_route_insert ops (h, c) v a d r))))"

subsection \<open>A concrete node for the examples\<close>

text \<open>Modelled from the spec: \<^verbatim>\<open>ip6_nexthop_new\<close> and \<^verbatim>\<open>ip6_route_insert\<close> belong to the
  IPv6 control plane, which is not among the sources. For the concrete examples, next hops
  come from a pool of \<open>nh_pool_size\<close> entries taken in order, and routes (VRF,
  destination, prefix length, next hop) are kept in a table of at most \<open>routes_max\<close>
  entries; either fails when full.\<close>

record ip6_tables =
  nh_used :: nat
  nh_pool_size :: nat
  routes :: "(16 word \<times> ipv6_addr \<times> 8 word \<times> nh_ref) list"
  routes_max :: nat

definition pool_nexthop_new ::
  "(nh_ref \<Rightarrow> nexthop6) \<times> ip6_tables \<Rightarrow> 16 word \<Rightarrow> 16 word \<Rightarrow> ipv6_addr
     \<Rightarrow> nh_ref option \<times> (nh_ref \<Rightarrow> nexthop6) \<times> ip6_tables" where
  "pool_nexthop_new hc vrf ifid a =
     (if nh_used (snd hc) < nh_pool_size (snd hc)
      then (Some (nh_used (snd hc)),
            (fst hc)(nh_used (snd hc) :=
               \<lparr>vrf_id = vrf, iface_id = ifid, ip = a, lladdr = replicate 6 0, flags = 0,
                held_pkts_head = None, held_pkts_tail = None, held_pkts_num = 0\<rparr>),
            (snd hc)\<lparr>nh_used := nh_used (snd hc) + 1\<rparr>)
      else (None, fst hc, snd hc))"

definition table_route_insert ::
  "(nh_ref \<Rightarrow> nexthop6) \<times> ip6_tables \<Rightarrow> 16 word \<Rightarrow> ipv6_addr \<Rightarrow> 8 word \<Rightarrow> nh_ref
     \<Rightarrow> int \<times> (nh_ref \<Rightarrow> nexthop6) \<times> ip6_tables" where
  "table_route_insert hc vrf a depth r =
     (if length (routes (snd hc)) < routes_max (snd hc)
      then (0, fst hc, (snd hc)\<lparr>routes := (vrf, a, depth, r) # routes (snd hc)\<rparr>)
      else (- 12, fst hc, snd hc))"

text \<open>Interface 1 is of type 1; interface 2 is of type 5, for which a tunnel node is
  attached on edge 4.\<close>

definition example_ops :: "ip6_tables ip6_ops" where
  "example_ops =
     \<lparr>iface_from_id = (\<lambda>i. if i = 1 then Some \<lparr>id_iface = 1, type_id = 1\<rparr>
                          else if i = 2 then Some \<lparr>id_iface = 2, type_id = 5\<rparr> else None),
      ip6_nexthop_new = pool_nexthop_new,
      ip6_route_insert = table_route_insert\<rparr>"

definition example_consts :: ip6_consts where
  "example_consts =
     \<lparr>GR_IP6_NH_F_REACHABLE = 1, GR_IP6_NH_F_PENDING = 2, GR_IP6_NH_F_LINK = 4,
      IP6_NH_MAX_HELD_PKTS = 256, little_endian_host = True\<rparr>"

definition example_edges :: "rte_edge_t list" where
  "example_edges = edges_init[5 := 4]"

text \<open>Addresses: \<^verbatim>\<open>2001:db8::1\<close>, \<^verbatim>\<open>2001:db8::2\<close>, \<^verbatim>\<open>2001:db8::\<close> and \<^verbatim>\<open>ff02::1:ff00:1\<close>.\<close>

definition addr_host1 :: ipv6_addr where
  "addr_host1 = [0x20, 0x01, 0x0d, 0xb8, 0, 0, 0, 0, 0, 0, 0, 0, 0, 0, 0, 1]"

definition addr_host2 :: ipv6_addr where
  "addr_host2 = [0x20, 0x01, 0x0d, 0xb8, 0, 0, 0, 0, 0, 0, 0, 0, 0, 0, 0, 2]"

definition addr_net :: ipv6_addr where
  "addr_net = [0x20, 0x01, 0x0d, 0xb8, 0, 0, 0, 0, 0, 0, 0, 0, 0, 0, 0, 0]"

definition addr_mcast :: ipv6_addr where
  "addr_mcast = [0xff, 0x02, 0, 0, 0, 0, 0, 0, 0, 0, 0, 1, 0xff, 0, 0, 1]"

text \<open>Next hop 0 is the connected route of interface 1, next hop 1 that of the tunnel
  interface 2, next hop 2 the reachable host \<^verbatim>\<open>2001:db8::2\<close>, next hop 3 an unresolved host
  that already holds packet 7 and has been solicited. Packets 0 and 1 go to
  \<^verbatim>\<open>2001:db8::1\<close> through next hops 0 and 1, packet 2 to the multicast address through next
  hop 0, packet 3 to \<^verbatim>\<open>2001:db8::2\<close> through next hop 2, packet 4 to \<^verbatim>\<open>2001:db8::1\<close>
  through next hop 3.\<close>

definition example_nh :: "16 word \<Rightarrow> ipv6_addr \<Rightarrow> 16 word \<Rightarrow> nexthop6" where
  "example_nh ifid a f =
     \<lparr>vrf_id = 0, iface_id = ifid, ip = a, lladdr = [2, 0, 0, 0, 0, ucast ifid], flags = f,
      held_pkts_head = None, held_pkts_tail = None, held_pkts_num = 0\<rparr>"

definition example_mbuf :: "ipv6_addr \<Rightarrow> nh_ref option \<Rightarrow> mbuf" where
  "example_mbuf a r = \<lparr>dst_addr = a, nh = r, eth_data = None, q_next = None\<rparr>"

definition example_state :: "ip6_tables ip6_state" where
  "example_state =
     \<lparr>mbuf_of = (\<lambda>_. example_mbuf addr_net None)
        (0 := example_mbuf addr_host1 (Some 0), 1 := example_mbuf addr_host1 (Some 1),
         2 := example_mbuf addr_mcast (Some 0), 3 := example_mbuf addr_host2 (Some 2),
         4 := example_mbuf addr_host1 (Some 3)),
      nh_of = (\<lambda>_. example_nh 0 addr_net 0)
        (0 := example_nh 1 addr_net 4, 1 := example_nh 2 addr_net 4,
         2 := example_nh 1 addr_host2 1,
         3 := (example_nh 1 addr_host1 2)
                \<lparr>held_pkts_head := Some 7, held_pkts_tail := Some 7, held_pkts_num := 1\<rparr>),
      ctl = \<lparr>nh_used = 4, nh_pool_size = 8, routes = [], routes_max = 8\<rparr>,
      enqueued = [],
      solicited = []\<rparr>"

text \<open>The state once packet 0 has got next hop 4 from the pool and its route from the
  table.\<close>

definition example_promoted :: "ip6_tables ip6_state" where
  "example_promoted =
     example_state
       \<lparr>nh_of := (nh_of example_state)
          (4 := \<lparr>vrf_id = 0, iface_id = 1, ip = addr_host1, lladdr = replicate 6 0, flags = 0,
                 held_pkts_head = None, held_pkts_tail = None, held_pkts_num = 0\<rparr>),
        ctl := \<lparr>nh_used = 5, nh_pool_size = 8, routes = [(0, addr_host1, 128, 4)],
                routes_max = 8\<rparr>,
        mbuf_of := (mbuf_of example_state)(0 := (mbuf_of example_state 0)\<lparr>nh := Some 4\<rparr>)\<rparr>"

text \<open>The same state with the pool of next hops used up.\<close>

definition example_exhausted :: "ip6_tables ip6_state" where
  "example_exhausted = example_state\<lparr>ctl := (ctl example_state)\<lparr>nh_pool_size := 4\<rparr>\<rparr>"

section \<open>TX node: modules/infra/datapath/tx.c\<close>

definition TX_ERROR :: rte_edge_t where "TX_ERROR = 0"
definition NO_PORT :: rte_edge_t where "NO_PORT = 1"

text \<open>What the node does to the outside, oldest first: the calls
  \<^verbatim>\<open>rte_eth_tx_burst(port_id, txq_id, mbufs, n)\<close> and the calls
  \<^verbatim>\<open>rte_node_enqueue(graph, node, edge, objs, n)\<close>, each with the packets it passes.\<close>

record tx_state =
  tx_bursts :: "(16 word \<times> 16 word \<times> mbuf_ref list) list"
  tx_enqueued :: "(rte_edge_t \<times> mbuf_ref list) list"

text \<open>\<open>txq_ids\<close> is the array of \<^verbatim>\<open>struct tx_ctx\<close> (of dimension \<^verbatim>\<open>RTE_MAX_ETHPORTS\<close>);
  \<open>tx_mbuf_priv\<close> gives the \<^verbatim>\<open>port_id\<close> of a packet's TX metadata, or \<open>None\<close> for NULL;
  \<open>rte_eth_tx_burst\<close> is the driver: how many of the offered packets it accepts.\<close>

record tx_env =
  txq_ids :: "16 word list"
  tx_mbuf_priv :: "mbuf_ref \<Rightarrow> 16 word option"
  rte_eth_tx_burst :: "16 word \<Rightarrow> 16 word \<Rightarrow> mbuf_ref list \<Rightarrow> 16 word"

definition rte_node_enqueue :: "tx_state \<Rightarrow> rte_edge_t \<Rightarrow> mbuf_ref list \<Rightarrow> tx_state" where
  "rte_node_enqueue s edge ms = s\<lparr>tx_enqueued := tx_enqueued s @ [(edge, ms)]\<rparr>"

text \<open>\<^verbatim>\<open>tx_burst\<close>; \<open>None\<close> where \<^verbatim>\<open>ctx->txq_ids[port_id]\<close> is read beyond the array.\<close>

definition tx_burst ::
  "tx_env \<Rightarrow> tx_state \<Rightarrow> 16 word \<Rightarrow> mbuf_ref list \<Rightarrow> (16 word \<times> tx_state) option" where
  "tx_burst env s port mbufs =
     (if unat port < length (txq_ids env) then
        (let txq_id = txq_ids env ! unat port;
             tx_ok = rte_eth_tx_burst env port txq_id mbufs;
             s1 = s\<lparr>tx_bursts := tx_bursts s @ [(port, txq_id, mbufs)]\<rparr>
         in Some (tx_ok,
                  if unat tx_ok < length mbufs
                  then rte_node_enqueue s1 TX_ERROR (drop (unat tx_ok) mbufs)
                  else s1))
      else None)"

text \<open>\<^verbatim>\<open>&objs[burst_start]\<close> with count \<^verbatim>\<open>i - burst_start\<close>.\<close>

definition objs_range :: "mbuf_ref list \<Rightarrow> nat \<Rightarrow> nat \<Rightarrow> mbuf_ref list" where
  "objs_range objs burst_start i = take (i - burst_start) (drop burst_start objs)"

text \<open>The \<^verbatim>\<open>for\<close> loop of \<^verbatim>\<open>tx_process\<close>, from index \<open>i\<close>, on the local variables
  \<^verbatim>\<open>port_id\<close>, \<^verbatim>\<open>burst_start\<close> and \<^verbatim>\<open>count\<close>. As in the C, \<^verbatim>\<open>burst_start = i\<close> is
  assigned before \<^verbatim>\<open>burst_start != i\<close> is tested.\<close>

function tx_process_loop ::
  "tx_env \<Rightarrow> mbuf_ref list \<Rightarrow> nat \<Rightarrow> 16 word \<times> nat \<times> 16 word \<times> tx_state
     \<Rightarrow> (16 word \<times> nat \<times> 16 word \<times> tx_state) option" where
  "tx_process_loop env objs i (port, burst_start, count, s) =
     (if i < length objs then
        (case tx_mbuf_priv env (objs ! i) of
           None \<Rightarrow>
             tx_process_loop env objs (i + 1)
               (port, burst_start, count, rte_node_enqueue s NO_PORT [objs ! i])
         | Some p \<Rightarrow>
             if p \<noteq> port then
               (let burst_start1 = i in
                case (if burst_start1 \<noteq> i
                      then (case tx_burst env s port (objs_range objs burst_start1 i) of
                              None \<Rightarrow> None
                            | Some (tx_ok, s1) \<Rightarrow> Some (count + tx_ok, s1))
                      else Some (count, s))
                of None \<Rightarrow> None
                 | Some (count1, s1) \<Rightarrow>
                     tx_process_loop env objs (i + 1) (p, burst_start1, count1, s1))
             else tx_process_loop env objs (i + 1) (port, burst_start, count, s))
      else Some (port, burst_start, count, s))"
  by pat_completeness auto
termination
  by (relation "measure (\<lambda>(env, objs, i, st). length objs - i)") auto

definition UINT16_MAX :: "16 word" where
  "UINT16_MAX = 0xFFFF"

definition tx_process ::
  "tx_env \<Rightarrow> tx_state \<Rightarrow> mbuf_ref list \<Rightarrow> (16 word \<times> tx_state) option" where
  "tx_process env s objs =
     (case tx_process_loop env objs 0 (UINT16_MAX, 0, 0, s) of
        None \<Rightarrow> None
      | Some (port, burst_start, count, s1) \<Rightarrow>
          if burst_start \<noteq> length objs
          then (case tx_burst env s1 port (objs_range objs burst_start (length objs)) of
                  None \<Rightarrow> None
                | Some (tx_ok, s2) \<Rightarrow> Some (count + tx_ok, s2))
          else Some (count, s1))"

text \<open>For the examples: 32 ports, each with TX queue 3 for this worker; packets 0 and 2
  are for port 0, packet 1 for port 1, the others carry no TX metadata; the driver accepts
  everything it is offered.\<close>

definition example_tx_env :: tx_env where
  "example_tx_env =
     \<lparr>txq_ids = replicate 32 3,
      tx_mbuf_priv = (\<lambda>m. if m = 0 \<or> m = 2 then Some 0 else if m = 1 then Some 1 else None),
      rte_eth_tx_burst = (\<lambda>port txq ms. of_nat (length ms))\<rparr>"

definition tx_idle :: tx_state where
  "tx_idle = \<lparr>tx_bursts = [], tx_enqueued = []\<rparr>"

section \<open>Queue assignment: modules/infra/control/worker_test.c\<close>

subsection \<open>Data of br\_worker.h and of the tests\<close>

record queue_map =
  port_id :: "16 word"
  queue_id :: "16 word"
  enabled :: bool

text \<open>\<^verbatim>\<open>struct port\<close>, with the fields the tests initialise (\<^verbatim>\<open>.port_id\<close>, here
  \<open>port_id_port\<close>, and \<^verbatim>\<open>.n_rxq\<close>) and the number of TX queues.\<close>

record port =
  port_id_port :: "16 word"
  n_rxq :: "16 word"
  n_txq :: "16 word"

text \<open>\<^verbatim>\<open>struct worker\<close>: the fields that belong to the control plane, and \<^verbatim>\<open>started\<close>.\<close>

record worker =
  cpu_id :: "32 word"
  started :: bool
  rxqs :: "queue_map list"
  txqs :: "queue_map list"

text \<open>The two process-wide lists, \<^verbatim>\<open>LIST_HEAD\<close> first.\<close>

record infra_state =
  ports :: "port list"
  workers :: "worker list"

text \<open>What the tests mock: the main lcore, the CPU allowance
  (\<^verbatim>\<open>numa_bitmask_isbitset\<close>), whether \<^verbatim>\<open>rte_zmalloc\<close> returns a worker, and the result of
  \<^verbatim>\<open>worker_graph_reload_all\<close>.\<close>

record infra_env =
  rte_get_main_lcore :: "32 word"
  numa_bitmask_isbitset :: "32 word \<Rightarrow> bool"
  rte_zmalloc_ok :: bool
  worker_graph_reload_all :: int

definition ENOMEM :: int where "ENOMEM = 12"
definition EBUSY :: int where "EBUSY = 16"
definition ENODEV :: int where "ENODEV = 19"
definition ERANGE :: int where "ERANGE = 34"

definition worker_count :: "infra_state \<Rightarrow> nat" where
  "worker_count s = length (workers s)"

subsection \<open>worker\_rxq\_assign\<close>

text \<open>Modelled from the spec: the steps of \<^verbatim>\<open>worker_rxq_assign\<close> (worker.c is not among
  the sources): looking up a port, a worker and the owner of an RX queue in the two lists,
  taking an RX queue from a worker and giving it to another, creating and destroying a
  worker, and numbering the TX queues.\<close>

definition port_find :: "port list \<Rightarrow> 16 word \<Rightarrow> port option" where
  "port_find ps pid = find (\<lambda>p. port_id_port p = pid) ps"

definition worker_find :: "worker list \<Rightarrow> 32 word \<Rightarrow> worker option" where
  "worker_find ws cpu = find (\<lambda>w. cpu_id w = cpu) ws"

definition owns_rxq :: "16 word \<Rightarrow> 16 word \<Rightarrow> worker \<Rightarrow> bool" where
  "owns_rxq pid qid w = (\<exists>q \<in> set (rxqs w). port_id q = pid \<and> queue_id q = qid)"

definition rxq_owner :: "worker list \<Rightarrow> 16 word \<Rightarrow> 16 word \<Rightarrow> worker option" where
  "rxq_owner ws pid qid = find (owns_rxq pid qid) ws"

definition rxq_remove :: "16 word \<Rightarrow> 16 word \<Rightarrow> worker \<Rightarrow> worker" where
  "rxq_remove pid qid w =
     w\<lparr>rxqs := filter (\<lambda>q. \<not> (port_id q = pid \<and> queue_id q = qid)) (rxqs w)\<rparr>"

definition rxq_append :: "16 word \<Rightarrow> 16 word \<Rightarrow> worker \<Rightarrow> worker" where
  "rxq_append pid qid w =
     w\<lparr>rxqs := rxqs w @ [\<lparr>port_id = pid, queue_id = qid, enabled = True\<rparr>]\<rparr>"

definition worker_update :: "32 word \<Rightarrow> (worker \<Rightarrow> worker) \<Rightarrow> worker list \<Rightarrow> worker list" where
  "worker_update cpu f ws = map (\<lambda>w. if cpu_id w = cpu then f w else w) ws"

definition worker_new :: "32 word \<Rightarrow> worker" where
  "worker_new cpu = \<lparr>cpu_id = cpu, started = True, rxqs = [], txqs = []\<rparr>"

definition worker_destroy :: "32 word \<Rightarrow> worker list \<Rightarrow> worker list" where
  "worker_destroy cpu ws = filter (\<lambda>w. cpu_id w \<noteq> cpu) ws"

text \<open>The symmetric TX maps. \<open>txqs_for ps i\<close> is one TX entry for each port, in turn, all
  with queue id \<open>i\<close>. A worker gets as queue id the number of workers that come after it
  in the list, so that the last worker of the list has TX queue 0; every port gets as many
  TX queues as there are workers.\<close>

definition txqs_for :: "port list \<Rightarrow> nat \<Rightarrow> queue_map list" where
  "txqs_for ps i =
     map (\<lambda>p. \<lparr>port_id = port_id_port p, queue_id = of_nat i, enabled = True\<rparr>) ps"

fun txq_number :: "port list \<Rightarrow> worker list \<Rightarrow> worker list" where
  "txq_number ps [] = []"
| "txq_number ps (w # ws) = w\<lparr>txqs := txqs_for ps (length ws)\<rparr> # txq_number ps ws"

definition txq_renumber :: "infra_state \<Rightarrow> infra_state" where
  "txq_renumber s =
     \<lparr>ports = map (\<lambda>p. p\<lparr>n_txq := of_nat (length (workers s))\<rparr>) (ports s),
      workers = txq_number (ports s) (workers s)\<rparr>"

text \<open>The RX queue is already on the worker of the CPU asked for: nothing to do.\<close>

definition rxq_already_set :: "infra_state \<Rightarrow> 16 word \<Rightarrow> 16 word \<Rightarrow> 32 word \<Rightarrow> bool" where
  "rxq_already_set s pid qid cpu =
     (case rxq_owner (workers s) pid qid of None \<Rightarrow> False | Some w \<Rightarrow> cpu_id w = cpu)"

text \<open>Modelled from the spec: \<^verbatim>\<open>worker_rxq_assign\<close>, whose body (worker.c) is not among
  the sources; only its tests are. The steps are those of the design's queue assignment
  engine: validation (unknown port or queue \<^verbatim>\<open>ENODEV\<close>, main CPU \<^verbatim>\<open>EBUSY\<close>, CPU outside
  the allowance \<^verbatim>\<open>ERANGE\<close>); nothing to do when the queue is already on the CPU; find the
  destination worker or create it, appended to the end of the list of workers; move the
  queue; destroy the source worker when it is left without RX queue; recompute the TX maps
  of all workers; reload the graphs; a failure undoes everything. Where the tests of
  \<^verbatim>\<open>worker_test.c\<close> fix what the design leaves open or says otherwise, the model follows
  the tests: the main lcore is asked before the allowance (\<^verbatim>\<open>rxq_assign_main_lcore\<close> mocks
  no allowance), and the TX queue ids run from the end of the list, since the tests give
  the worker just created TX queue 0 and move the others up (\<^verbatim>\<open>rxq_assign_new_worker\<close>,
  \<^verbatim>\<open>rxq_assign_new_worker2\<close>); the fixture of \<^verbatim>\<open>setup\<close> is numbered likewise.\<close>

definition worker_rxq_assign ::
  "infra_env \<Rightarrow> infra_state \<Rightarrow> 16 word \<Rightarrow> 16 word \<Rightarrow> 32 word \<Rightarrow> int \<times> infra_state" where
  "worker_rxq_assign env s pid qid cpu =
     (case port_find (ports s) pid of
        None \<Rightarrow> (- ENODEV, s)
      | Some p \<Rightarrow>
          if \<not> qid < n_rxq p then (- ENODEV, s)
          else if cpu = rte_get_main_lcore env then (- EBUSY, s)
          else if \<not> numa_bitmask_isbitset env cpu then (- ERANGE, s)
          else
            (let src = rxq_owner (workers s) pid qid in
             if rxq_already_set s pid qid cpu then (0, s)
             else
               (let create = (worker_find (workers s) cpu = None) in
                if create \<and> \<not> rte_zmalloc_ok env then (- ENOMEM, s)
                else
                  (let ws1 = (if create then workers s @ [worker_new cpu] else workers s);
                       ws2 = (case src of
                                None \<Rightarrow> ws1
                              | Some w \<Rightarrow> worker_update (cpu_id w) (rxq_remove pid qid) ws1);
                       ws3 = worker_update cpu (rxq_append pid qid) ws2;
                       ws4 = (case src of
                                None \<Rightarrow> ws3
                              | Some w \<Rightarrow>
                                  if rxqs (rxq_remove pid qid w) = []
                                  then worker_destroy (cpu_id w) ws3 else ws3);
                       s1 = txq_renumber (s\<lparr>workers := ws4\<rparr>)
                   in if worker_graph_reload_all env < 0
                      then (worker_graph_reload_all env, s)
                      else (0, s1)))))"

subsection \<open>The fixture and the assertions of worker\_test.c\<close>

definition q :: "16 word \<Rightarrow> 16 word \<Rightarrow> queue_map" where
  "q pid rxq_id = \<lparr>port_id = pid, queue_id = rxq_id, enabled = True\<rparr>"

definition p0 :: port where "p0 = \<lparr>port_id_port = 0, n_rxq = 2, n_txq = 0\<rparr>"
definition p1 :: port where "p1 = \<lparr>port_id_port = 1, n_rxq = 2, n_txq = 0\<rparr>"
definition p2 :: port where "p2 = \<lparr>port_id_port = 2, n_rxq = 2, n_txq = 0\<rparr>"

text \<open>\<^verbatim>\<open>setup\<close>: every \<^verbatim>\<open>LIST_INSERT_HEAD\<close> puts its element in front.\<close>

definition test_setup :: infra_state where
  "test_setup =
     \<lparr>ports = [p2, p1, p0],
      workers =
        [\<lparr>cpu_id = 2, started = True, rxqs = [q 1 1, q 2 0, q 2 1], txqs = [q 0 1, q 1 1, q 2 1]\<rparr>,
         \<lparr>cpu_id = 1, started = True, rxqs = [q 0 0, q 0 1, q 1 0], txqs = [q 0 0, q 1 0, q 2 0]\<rparr>]\<rparr>"

text \<open>\<^verbatim>\<open>common_mocks\<close>.\<close>

definition common_mocks :: infra_env where
  "common_mocks =
     \<lparr>rte_get_main_lcore = 0, numa_bitmask_isbitset = (\<lambda>_. True), rte_zmalloc_ok = True,
      worker_graph_reload_all = 0\<rparr>"

text \<open>The macro \<^verbatim>\<open>assert_qmaps\<close>: the same length, and every expected pair is found.\<close>

definition assert_qmaps :: "queue_map list \<Rightarrow> queue_map list \<Rightarrow> bool" where
  "assert_qmaps qmaps expected =
     (length qmaps = length expected
      \<and> (\<forall>e \<in> set expected. \<exists>a \<in> set qmaps. port_id a = port_id e \<and> queue_id a = queue_id e))"

text \<open>\<^verbatim>\<open>w1.rxqs\<close>, \<^verbatim>\<open>w1.txqs\<close> and so on: the queues of the worker of a CPU, none once the
  worker is destroyed (the tests read the freed arrays of the static workers).\<close>

definition rxqs_of :: "infra_state \<Rightarrow> 32 word \<Rightarrow> queue_map list" where
  "rxqs_of s cpu = (case worker_find (workers s) cpu of None \<Rightarrow> [] | Some w \<Rightarrow> rxqs w)"

definition txqs_of :: "infra_state \<Rightarrow> 32 word \<Rightarrow> queue_map list" where
  "txqs_of s cpu = (case worker_find (workers s) cpu of None \<Rightarrow> [] | Some w \<Rightarrow> txqs w)"

text \<open>The states the tests go through, one after the other (the group shares its
  fixture): after \<^verbatim>\<open>rxq_assign_existing_worker\<close>, after each of the two calls of
  \<^verbatim>\<open>rxq_assign_existing_worker_destroy\<close>, after \<^verbatim>\<open>rxq_assign_new_worker\<close>, after
  \<^verbatim>\<open>rxq_assign_new_worker_destroy\<close> and after \<^verbatim>\<open>rxq_assign_new_worker2\<close>.\<close>

definition st_existing_worker :: infra_state where
  "st_existing_worker = snd (worker_rxq_assign common_mocks test_setup 1 1 1)"

definition st_existing_worker_destroy1 :: infra_state where
  "st_existing_worker_destroy1 = snd (worker_rxq_assign common_mocks st_existing_worker 2 0 1)"

definition st_existing_worker_destroy :: infra_state where
  "st_existing_worker_destroy =
     snd (worker_rxq_assign common_mocks st_existing_worker_destroy1 2 1 1)"

definition st_new_worker :: infra_state where
  "st_new_worker = snd (worker_rxq_assign common_mocks st_existing_worker_destroy 2 1 2)"

definition st_new_worker_destroy :: infra_state where
  "st_new_worker_destroy = snd (worker_rxq_assign common_mocks st_new_worker 2 1 3)"

definition st_new_worker2 :: infra_state where
  "st_new_worker2 = snd (worker_rxq_assign common_mocks st_new_worker_destroy 2 0 2)"

subsection \<open>The symmetric TX property\<close>



text \<open>The index that \<open>txq_number\<close> gives to the worker of a CPU: the number of workers
  after it in the list.\<close>

fun worker_index :: "worker list \<Rightarrow> 32 word \<Rightarrow> nat" where
  "worker_index [] cpu = 0"
| "worker_index (w # ws) cpu = (if cpu_id w = cpu then length ws else worker_index ws cpu)"



text \<open>The port and queue given to \<open>worker_rxq_assign\<close> do not exist.\<close>

definition rxq_unknown :: "infra_state \<Rightarrow> 16 word \<Rightarrow> 16 word \<Rightarrow> bool" where
  "rxq_unknown s pid qid =
     (case port_find (ports s) pid of None \<Rightarrow> True | Some p \<Rightarrow> \<not> qid < n_rxq p)"


section \<open>Properties of the IPv6 output node\<close>

subsection \<open>Chains of held packets\<close>

lemma held_chain_upd_other:
  "held_chain h p ms \<Longrightarrow> m \<notin> set ms \<Longrightarrow> held_chain (h(m := x)) p ms"
  by (induction ms arbitrary: p) auto

lemma held_chain_link:
  "held_chain h p ms \<Longrightarrow> ms \<noteq> [] \<Longrightarrow> distinct ms \<Longrightarrow> m \<notin> set ms \<Longrightarrow> q_next (h m) = None
   \<Longrightarrow> q_next (h' (last ms)) = Some m \<Longrightarrow> \<forall>x. x \<noteq> last ms \<longrightarrow> h' x = h x
   \<Longrightarrow> held_chain h' p (ms @ [m])"
proof (induction ms arbitrary: p)
  case Nil
  then show ?case by simp
next
  case (Cons a ms)
  show ?case
  proof (cases "ms = []")
    case True
    with Cons.prems show ?thesis by auto
  next
    case False
    with Cons.prems have "held_chain h' (q_next (h a)) (ms @ [m])"
      by (intro Cons.IH) auto
    moreover have "h' a = h a"
    proof -
      from False have "last ms \<in> set ms" by simp
      with Cons.prems have "a \<noteq> last ms" by auto
      with Cons.prems False show ?thesis by simp
    qed
    moreover from Cons.prems have "p = Some a" by simp
    ultimately show ?thesis by simp
  qed
qed

lemma held_chain_append:
  "held_chain h p ms \<Longrightarrow> ms \<noteq> [] \<Longrightarrow> distinct ms \<Longrightarrow> m \<notin> set ms \<Longrightarrow> q_next (h m) = None
   \<Longrightarrow> held_chain (h(last ms := (h (last ms))\<lparr>q_next := Some m\<rparr>)) p (ms @ [m])"
  by (erule held_chain_link) auto

subsection \<open>The three results of maybe\_hold\_packet\<close>

lemma maybe_hold_packet_ok:
  "flags (nh_of s r) AND GR_IP6_NH_F_REACHABLE K \<noteq> 0
     \<or> rte_ipv6_addr_is_mcast (dst_addr (mbuf_of s m))
   \<Longrightarrow> maybe_hold_packet K s r m = Some (OK_TO_SEND, s)"
  by (simp add: maybe_hold_packet_def)

lemma maybe_hold_packet_full:
  "\<not> (flags (nh_of s r) AND GR_IP6_NH_F_REACHABLE K \<noteq> 0
       \<or> rte_ipv6_addr_is_mcast (dst_addr (mbuf_of s m)))
   \<Longrightarrow> \<not> held_pkts_num (nh_of s r) < IP6_NH_MAX_HELD_PKTS K
   \<Longrightarrow> maybe_hold_packet K s r m = Some (HOLD_QUEUE_FULL, s)"
  by (simp add: maybe_hold_packet_def)

lemma maybe_hold_packet_held:
  assumes nr: "\<not> (flags (nh_of s r) AND GR_IP6_NH_F_REACHABLE K \<noteq> 0
                   \<or> rte_ipv6_addr_is_mcast (dst_addr (mbuf_of s m)))"
    and lt: "held_pkts_num (nh_of s r) < IP6_NH_MAX_HELD_PKTS K"
    and h: "holds s r ms" and nin: "m \<notin> set ms"
  shows "\<exists>s'. maybe_hold_packet K s r m = Some (HELD, s') \<and> holds s' r (ms @ [m])
      \<and> solicited s' =
          solicited s @ (if flags (nh_of s r) AND GR_IP6_NH_F_PENDING K = 0 then [r] else [])
      \<and> flags (nh_of s' r) =
          (if flags (nh_of s r) AND GR_IP6_NH_F_PENDING K = 0
           then flags (nh_of s r) OR GR_IP6_NH_F_PENDING K else flags (nh_of s r))
      \<and> enqueued s' = enqueued s"
proof (cases "ms = []")
  case True
  with h have hd: "held_pkts_head (nh_of s r) = None" "held_pkts_num (nh_of s r) = 0"
    by (auto simp: holds_def)
  show ?thesis using nr lt hd True
    by (auto simp: maybe_hold_packet_def Let_def set_q_next_def nh_upd_def holds_def)
next
  case False
  with h obtain x where hd: "held_pkts_head (nh_of s r) = Some x"
    by (cases ms) (auto simp: holds_def)
  from h False have tl: "held_pkts_tail (nh_of s r) = Some (last ms)"
    by (simp add: holds_def)
  from h have ch: "held_chain (mbuf_of s) (held_pkts_head (nh_of s r)) ms"
    and d: "distinct ms" and n: "held_pkts_num (nh_of s r) = length ms"
    by (auto simp: holds_def)
  let ?h1 = "(mbuf_of s)(m := (mbuf_of s m)\<lparr>q_next := None\<rparr>)"
  have c1: "held_chain ?h1 (held_pkts_head (nh_of s r)) ms"
    using ch nin by (rule held_chain_upd_other)
  have c2: "held_chain (?h1(last ms := (?h1 (last ms))\<lparr>q_next := Some m\<rparr>))
              (held_pkts_head (nh_of s r)) (ms @ [m])"
    using c1 False d nin by (rule held_chain_append) simp
  show ?thesis using nr lt hd tl c2 d nin n
    by (auto simp: maybe_hold_packet_def Let_def set_q_next_def nh_upd_def holds_def)
qed

lemma maybe_hold_packet_num:
  "maybe_hold_packet K s r m = Some (st, s') \<Longrightarrow>
   held_pkts_num (nh_of s' x) =
     (if st = HELD \<and> x = r then held_pkts_num (nh_of s x) + 1 else held_pkts_num (nh_of s x))"
  by (auto simp: maybe_hold_packet_def Let_def set_q_next_def nh_upd_def
           split: if_splits option.splits)

lemma maybe_hold_packet_held_lt:
  "maybe_hold_packet K s r m = Some (HELD, s') \<Longrightarrow>
   held_pkts_num (nh_of s r) < IP6_NH_MAX_HELD_PKTS K"
  by (auto simp: maybe_hold_packet_def Let_def split: if_splits option.splits)


lemma example_holds_7: "holds example_state 3 [7]"
  by (simp add: holds_def example_state_def example_nh_def example_mbuf_def)

lemma example_holds_nil: "holds example_state 0 []"
  by (simp add: holds_def example_state_def example_nh_def)

subsection \<open>Claims on the hold queue\<close>

text \<open>C3. At the hold-queue step (\<open>ip6_output_hold\<close>, which starts with
  \<open>maybe_hold_packet\<close>): a reachable next hop or a multicast destination gives
  \<open>OK_TO_SEND\<close>; otherwise, below the bound, the packet is appended to the packets the next
  hop holds, \<^verbatim>\<open>ip6_nexthop_solicit\<close> is called and \<open>PENDING\<close> set exactly when \<open>PENDING\<close> was
  clear, the result is \<open>HELD\<close> and nothing is enqueued; otherwise the packet is enqueued on
  \<open>QUEUE_FULL\<close>.\<close>

theorem hold_queue_discipline:
  "(flags (nh_of (fst acc) r) AND GR_IP6_NH_F_REACHABLE K \<noteq> 0
      \<or> rte_ipv6_addr_is_mcast (dst_addr (mbuf_of (fst acc) m))
    \<longrightarrow> maybe_hold_packet K (fst acc) r m = Some (OK_TO_SEND, fst acc))
   \<and> (\<not> (flags (nh_of (fst acc) r) AND GR_IP6_NH_F_REACHABLE K \<noteq> 0
            \<or> rte_ipv6_addr_is_mcast (dst_addr (mbuf_of (fst acc) m)))
      \<and> held_pkts_num (nh_of (fst acc) r) < IP6_NH_MAX_HELD_PKTS K
      \<and> holds (fst acc) r ms \<and> m \<notin> set ms
    \<longrightarrow> (\<exists>s'. maybe_hold_packet K (fst acc) r m = Some (HELD, s')
            \<and> ip6_output_hold K acc ifc edge r m = Some (s', snd acc)
            \<and> holds s' r (ms @ [m])
            \<and> enqueued s' = enqueued (fst acc)
            \<and> (flags (nh_of (fst acc) r) AND GR_IP6_NH_F_PENDING K = 0
                 \<longrightarrow> solicited s' = solicited (fst acc) @ [r]
                   \<and> flags (nh_of s' r) = flags (nh_of (fst acc) r) OR GR_IP6_NH_F_PENDING K)
            \<and> (flags (nh_of (fst acc) r) AND GR_IP6_NH_F_PENDING K \<noteq> 0
                 \<longrightarrow> solicited s' = solicited (fst acc)
                   \<and> flags (nh_of s' r) = flags (nh_of (fst acc) r))))
   \<and> (\<not> (flags (nh_of (fst acc) r) AND GR_IP6_NH_F_REACHABLE K \<noteq> 0
            \<or> rte_ipv6_addr_is_mcast (dst_addr (mbuf_of (fst acc) m)))
      \<and> \<not> held_pkts_num (nh_of (fst acc) r) < IP6_NH_MAX_HELD_PKTS K
    \<longrightarrow> maybe_hold_packet K (fst acc) r m = Some (HOLD_QUEUE_FULL, fst acc)
      \<and> ip6_output_hold K acc ifc edge r m
          = Some (rte_node_enqueue_x1 (fst acc) QUEUE_FULL m, snd acc))"
proof (intro conjI impI)
  assume "flags (nh_of (fst acc) r) AND GR_IP6_NH_F_REACHABLE K \<noteq> 0
      \<or> rte_ipv6_addr_is_mcast (dst_addr (mbuf_of (fst acc) m))"
  then show "maybe_hold_packet K (fst acc) r m = Some (OK_TO_SEND, fst acc)"
    by (rule maybe_hold_packet_ok)
next
  assume a: "\<not> (flags (nh_of (fst acc) r) AND GR_IP6_NH_F_REACHABLE K \<noteq> 0
            \<or> rte_ipv6_addr_is_mcast (dst_addr (mbuf_of (fst acc) m)))
      \<and> held_pkts_num (nh_of (fst acc) r) < IP6_NH_MAX_HELD_PKTS K
      \<and> holds (fst acc) r ms \<and> m \<notin> set ms"
  then obtain s' where s': "maybe_hold_packet K (fst acc) r m = Some (HELD, s')"
      "holds s' r (ms @ [m])"
      "solicited s' = solicited (fst acc)
          @ (if flags (nh_of (fst acc) r) AND GR_IP6_NH_F_PENDING K = 0 then [r] else [])"
      "flags (nh_of s' r) =
          (if flags (nh_of (fst acc) r) AND GR_IP6_NH_F_PENDING K = 0
           then flags (nh_of (fst acc) r) OR GR_IP6_NH_F_PENDING K
           else flags (nh_of (fst acc) r))"
      "enqueued s' = enqueued (fst acc)"
    using maybe_hold_packet_held [of "fst acc" r K m ms] by blast
  from s'(1) have "ip6_output_hold K acc ifc edge r m = Some (s', snd acc)"
    by (simp add: ip6_output_hold_def)
  with s' show "\<exists>s'. maybe_hold_packet K (fst acc) r m = Some (HELD, s')
            \<and> ip6_output_hold K acc ifc edge r m = Some (s', snd acc)
            \<and> holds s' r (ms @ [m])
            \<and> enqueued s' = enqueued (fst acc)
            \<and> (flags (nh_of (fst acc) r) AND GR_IP6_NH_F_PENDING K = 0
                 \<longrightarrow> solicited s' = solicited (fst acc) @ [r]
                   \<and> flags (nh_of s' r) = flags (nh_of (fst acc) r) OR GR_IP6_NH_F_PENDING K)
            \<and> (flags (nh_of (fst acc) r) AND GR_IP6_NH_F_PENDING K \<noteq> 0
                 \<longrightarrow> solicited s' = solicited (fst acc)
                   \<and> flags (nh_of s' r) = flags (nh_of (fst acc) r))"
    by auto
next
  assume a: "\<not> (flags (nh_of (fst acc) r) AND GR_IP6_NH_F_REACHABLE K \<noteq> 0
            \<or> rte_ipv6_addr_is_mcast (dst_addr (mbuf_of (fst acc) m)))
      \<and> \<not> held_pkts_num (nh_of (fst acc) r) < IP6_NH_MAX_HELD_PKTS K"
  then show f: "maybe_hold_packet K (fst acc) r m = Some (HOLD_QUEUE_FULL, fst acc)"
    using maybe_hold_packet_full [of "fst acc" r K m] by blast
  then show "ip6_output_hold K acc ifc edge r m
          = Some (rte_node_enqueue_x1 (fst acc) QUEUE_FULL m, snd acc)"
    by (simp add: ip6_output_hold_def)
qed

lemma example_flags:
  "flags (nh_of example_state 0) = 4" "flags (nh_of example_state 2) = 1"
  "flags (nh_of example_state 3) = 2"
  "held_pkts_num (nh_of example_state 0) = 0" "held_pkts_num (nh_of example_state 3) = 1"
  "dst_addr (mbuf_of example_state 0) = addr_host1"
  "dst_addr (mbuf_of example_state 2) = addr_mcast"
  "dst_addr (mbuf_of example_state 3) = addr_host2"
  "dst_addr (mbuf_of example_state 4) = addr_host1"
  "enqueued example_state = []" "solicited example_state = []"
  by (simp_all add: example_state_def example_nh_def example_mbuf_def)

lemma example_mcast:
  "\<not> rte_ipv6_addr_is_mcast addr_host1" "\<not> rte_ipv6_addr_is_mcast addr_host2"
  "rte_ipv6_addr_is_mcast addr_mcast"
  by (simp_all add: rte_ipv6_addr_is_mcast_def addr_host1_def addr_host2_def addr_mcast_def)

theorem hold_queue_discipline_witness:
  "(\<exists>s'. maybe_hold_packet example_consts example_state 0 0 = Some (HELD, s')
       \<and> ip6_output_hold example_consts (example_state, 0) \<lparr>id_iface = 1, type_id = 1\<rparr>
            ETH_OUTPUT 0 0 = Some (s', 0)
       \<and> holds s' 0 [0] \<and> enqueued s' = [] \<and> solicited s' = [0]
       \<and> flags (nh_of s' 0) = 6)
   \<and> (\<exists>s'. maybe_hold_packet example_consts example_state 3 4 = Some (HELD, s')
       \<and> holds s' 3 [7, 4] \<and> enqueued s' = [] \<and> solicited s' = []
       \<and> flags (nh_of s' 3) = 2)
   \<and> maybe_hold_packet example_consts example_state 2 3 = Some (OK_TO_SEND, example_state)"
proof (intro conjI)
  note th = hold_queue_discipline [where acc = "(example_state, 0)" and K = example_consts
      and ifc = "\<lparr>id_iface = 1, type_id = 1\<rparr>" and edge = ETH_OUTPUT]
  have "\<exists>s'. maybe_hold_packet example_consts example_state 0 0 = Some (HELD, s')
       \<and> ip6_output_hold example_consts (example_state, 0) \<lparr>id_iface = 1, type_id = 1\<rparr>
            ETH_OUTPUT 0 0 = Some (s', 0)
       \<and> holds s' 0 ([] @ [0]) \<and> enqueued s' = enqueued example_state
       \<and> (flags (nh_of example_state 0) AND GR_IP6_NH_F_PENDING example_consts = 0
                 \<longrightarrow> solicited s' = solicited example_state @ [0]
                   \<and> flags (nh_of s' 0)
                       = flags (nh_of example_state 0) OR GR_IP6_NH_F_PENDING example_consts)
       \<and> (flags (nh_of example_state 0) AND GR_IP6_NH_F_PENDING example_consts \<noteq> 0
                 \<longrightarrow> solicited s' = solicited example_state
                   \<and> flags (nh_of s' 0) = flags (nh_of example_state 0))"
    using th [where r = 0 and m = 0 and ms = "[]", THEN conjunct2, THEN conjunct1]
      example_holds_nil
    by (simp add: example_flags example_mcast example_consts_def)
  then show "\<exists>s'. maybe_hold_packet example_consts example_state 0 0 = Some (HELD, s')
       \<and> ip6_output_hold example_consts (example_state, 0) \<lparr>id_iface = 1, type_id = 1\<rparr>
            ETH_OUTPUT 0 0 = Some (s', 0)
       \<and> holds s' 0 [0] \<and> enqueued s' = [] \<and> solicited s' = [0]
       \<and> flags (nh_of s' 0) = 6"
    by (simp add: example_flags example_consts_def)
next
  note th = hold_queue_discipline [where acc = "(example_state, 0)" and K = example_consts
      and ifc = "\<lparr>id_iface = 1, type_id = 1\<rparr>" and edge = ETH_OUTPUT]
  have "\<exists>s'. maybe_hold_packet example_consts example_state 3 4 = Some (HELD, s')
       \<and> ip6_output_hold example_consts (example_state, 0) \<lparr>id_iface = 1, type_id = 1\<rparr>
            ETH_OUTPUT 3 4 = Some (s', 0)
       \<and> holds s' 3 ([7] @ [4]) \<and> enqueued s' = enqueued example_state
       \<and> (flags (nh_of example_state 3) AND GR_IP6_NH_F_PENDING example_consts = 0
                 \<longrightarrow> solicited s' = solicited example_state @ [3]
                   \<and> flags (nh_of s' 3)
                       = flags (nh_of example_state 3) OR GR_IP6_NH_F_PENDING example_consts)
       \<and> (flags (nh_of example_state 3) AND GR_IP6_NH_F_PENDING example_consts \<noteq> 0
                 \<longrightarrow> solicited s' = solicited example_state
                   \<and> flags (nh_of s' 3) = flags (nh_of example_state 3))"
    using th [where r = 3 and m = 4 and ms = "[7]", THEN conjunct2, THEN conjunct1]
      example_holds_7
    by (simp add: example_flags example_mcast example_consts_def)
  then show "\<exists>s'. maybe_hold_packet example_consts example_state 3 4 = Some (HELD, s')
       \<and> holds s' 3 [7, 4] \<and> enqueued s' = [] \<and> solicited s' = []
       \<and> flags (nh_of s' 3) = 2"
    by (auto simp add: example_flags example_consts_def)
next
  show "maybe_hold_packet example_consts example_state 2 3 = Some (OK_TO_SEND, example_state)"
    using hold_queue_discipline [where acc = "(example_state, 0)" and K = example_consts
      and r = 2 and m = 3, THEN conjunct1]
    by (simp add: example_flags example_consts_def)
qed



subsection \<open>The bound over a whole burst\<close>

lemma hold_keeps_bounded:
  assumes "maybe_hold_packet K s r m = Some (st, s')" and "held_bounded K (nh_of s)"
  shows "held_bounded K (nh_of s')"
  unfolding held_bounded_def
proof
  fix x
  from assms(2) have b: "held_pkts_num (nh_of s x) \<le> IP6_NH_MAX_HELD_PKTS K"
    by (simp add: held_bounded_def)
  show "held_pkts_num (nh_of s' x) \<le> IP6_NH_MAX_HELD_PKTS K"
  proof (cases "st = HELD \<and> x = r")
    case True
    with assms(1) have "held_pkts_num (nh_of s r) < IP6_NH_MAX_HELD_PKTS K"
      by (auto dest: maybe_hold_packet_held_lt)
    with True maybe_hold_packet_num [OF assms(1), of x] show ?thesis by simp
  next
    case False
    with b maybe_hold_packet_num [OF assms(1), of x] show ?thesis by auto
  qed
qed

lemma hold_bounded:
  assumes "ip6_output_hold K acc ifc edge r m = Some acc'" and "held_bounded K (nh_of (fst acc))"
  shows "held_bounded K (nh_of (fst acc'))"
proof -
  from assms(1) obtain st s1 where h: "maybe_hold_packet K (fst acc) r m = Some (st, s1)"
    by (auto simp: ip6_output_hold_def split: option.splits)
  from hold_keeps_bounded [OF h assms(2)] have "held_bounded K (nh_of s1)" .
  with assms(1) h show ?thesis
    by (cases st) (auto simp: ip6_output_hold_def rte_node_enqueue_x1_def Let_def)
qed

lemma promote_bounded:
  assumes "ip6_output_promote ops K s r m = (x, s1)" and "held_bounded K (nh_of s)"
    and "ops_keep_bound ops K"
  shows "held_bounded K (nh_of s1)"
proof (cases "flags (nh_of s r) AND GR_IP6_NH_F_LINK K \<noteq> 0
         \<and> \<not> rte_ipv6_addr_is_mcast (dst_addr (mbuf_of s m))
         \<and> \<not> rte_ipv6_addr_eq (dst_addr (mbuf_of s m)) (ip (nh_of s r))")
  case False
  with assms(1,2) show ?thesis by (auto simp: ip6_output_promote_def)
next
  case True
  obtain y h1 c1 where n: "ip6_nexthop_new ops (nh_of s, ctl s) (vrf_id (nh_of s r))
      (iface_id (nh_of s r)) (dst_addr (mbuf_of s m)) = (y, h1, c1)"
    by (metis prod_cases3)
  from assms(2,3) have "held_bounded K (fst (snd (ip6_nexthop_new ops (nh_of s, ctl s)
      (vrf_id (nh_of s r)) (iface_id (nh_of s r)) (dst_addr (mbuf_of s m)))))"
    by (simp add: ops_keep_bound_def)
  with n have b1: "held_bounded K h1" by simp
  show ?thesis
  proof (cases y)
    case None
    with True n assms(1) b1 show ?thesis by (auto simp: ip6_output_promote_def)
  next
    case (Some remote)
    obtain rc h2 c2 where i: "ip6_route_insert ops (h1, c1) (vrf_id (h1 r))
        (dst_addr (mbuf_of s m)) RTE_IPV6_MAX_DEPTH remote = (rc, h2, c2)"
      by (metis prod_cases3)
    from b1 assms(3) have "held_bounded K (fst (snd (ip6_route_insert ops (h1, c1)
        (vrf_id (h1 r)) (dst_addr (mbuf_of s m)) RTE_IPV6_MAX_DEPTH remote)))"
      by (simp add: ops_keep_bound_def)
    with i have "held_bounded K h2" by simp
    with True n Some i assms(1) show ?thesis
      by (auto simp: ip6_output_promote_def split: if_splits)
  qed
qed

lemma packet_bounded:
  assumes "ip6_output_packet ops K edges acc m = Some acc'"
    and "held_bounded K (nh_of (fst acc))" and "ops_keep_bound ops K"
  shows "held_bounded K (nh_of (fst acc'))"
proof (cases "nh (mbuf_of (fst acc) m)")
  case None
  with assms(1,2) show ?thesis
    by (auto simp: ip6_output_packet_def rte_node_enqueue_x1_def)
next
  case (Some r)
  show ?thesis
  proof (cases "iface_from_id ops (iface_id (nh_of (fst acc) r))")
    case None
    with Some assms(1,2) show ?thesis
      by (auto simp: ip6_output_packet_def rte_node_enqueue_x1_def)
  next
    case ifc: (Some ifc)
    show ?thesis
    proof (cases "edges ! unat (type_id ifc) = ETH_OUTPUT")
      case False
      with Some ifc assms(1,2) show ?thesis
        by (auto simp: ip6_output_packet_def rte_node_enqueue_x1_def Let_def split: if_splits)
    next
      case True
      obtain x s1 where p: "ip6_output_promote ops K (fst acc) r m = (x, s1)"
        by (metis surj_pair)
      from promote_bounded [OF p assms(2,3)] have b1: "held_bounded K (nh_of s1)" .
      show ?thesis
      proof (cases x)
        case None
        with Some ifc True p assms(1) b1 show ?thesis
          by (auto simp: ip6_output_packet_def rte_node_enqueue_x1_def Let_def
                   split: if_splits)
      next
        case r1: (Some r1)
        with Some ifc True p assms(1)
        have "ip6_output_hold K (s1, snd acc) ifc ETH_OUTPUT r1 m = Some acc'"
          by (auto simp: ip6_output_packet_def Let_def split: if_splits)
        from hold_bounded [OF this] b1 show ?thesis by simp
      qed
    qed
  qed
qed

text \<open>Over a whole burst of \<open>ip6_output_process\<close> no next hop comes to hold more than
  \<^verbatim>\<open>IP6_NH_MAX_HELD_PKTS\<close> packets.\<close>

lemma ip6_output_loop_bounded:
  "ip6_output_loop ops K edges ms acc = Some acc' \<Longrightarrow> held_bounded K (nh_of (fst acc)) \<Longrightarrow>
   ops_keep_bound ops K \<Longrightarrow> held_bounded K (nh_of (fst acc'))"
proof (induction ms arbitrary: acc)
  case Nil
  then show ?case by simp
next
  case (Cons m ms)
  from Cons.prems(1) obtain acc1 where
    a: "ip6_output_packet ops K edges acc m = Some acc1"
    and l: "ip6_output_loop ops K edges ms acc1 = Some acc'"
    by (auto split: option.splits)
  from packet_bounded [OF a Cons.prems(2,3)] have "held_bounded K (nh_of (fst acc1))" .
  with Cons.IH [OF l] Cons.prems(3) show ?case by simp
qed

lemma ip6_output_process_bounded:
  assumes "ip6_output_process ops K edges s objs = Some (sent, s')"
    and "held_bounded K (nh_of s)" and "ops_keep_bound ops K"
  shows "held_bounded K (nh_of s')"
proof -
  from assms(1) have "ip6_output_loop ops K edges objs (s, 0) = Some (s', sent)"
    by (auto simp: ip6_output_process_def split: option.splits)
  from ip6_output_loop_bounded [OF this] assms(2,3) show ?thesis by simp
qed

subsection \<open>The tunnel override table\<close>

text \<open>C9. \<open>ip6_output_add_tunnel\<close> aborts for the undefined interface type and for a type
  id of 128 (the size of the table) or more; it aborts when the entry of the type is no
  longer \<open>ETH_OUTPUT\<close>, which is the case after a registration; otherwise, and only then,
  it records the new edge in that entry.\<close>

theorem add_tunnel_abort_or_record:
  assumes "length edges = 128"
  shows "(t = undef \<or> 128 \<le> unat t
            \<longrightarrow> ip6_output_add_tunnel undef edges t e = Inl Invalid_iface_type)
       \<and> (t \<noteq> undef \<and> unat t < 128 \<and> edges ! unat t \<noteq> ETH_OUTPUT
            \<longrightarrow> ip6_output_add_tunnel undef edges t e = Inl Already_registered)
       \<and> (t \<noteq> undef \<and> unat t < 128 \<and> edges ! unat t = ETH_OUTPUT
            \<longrightarrow> ip6_output_add_tunnel undef edges t e = Inr (edges[unat t := e]))
       \<and> (\<forall>edges1. ip6_output_add_tunnel undef edges t e = Inr edges1
            \<longrightarrow> length edges1 = 128 \<and> edges1 ! unat t = e
              \<and> (\<forall>i < 128. i \<noteq> unat t \<longrightarrow> edges1 ! i = edges ! i)
              \<and> (e \<noteq> ETH_OUTPUT
                   \<longrightarrow> ip6_output_add_tunnel undef edges1 t e1 = Inl Already_registered))"
  using assms by (auto simp: ip6_output_add_tunnel_def split: if_splits)

theorem add_tunnel_abort_or_record_witness:
  "length edges_init = 128
   \<and> ip6_output_add_tunnel 0 edges_init 0 4 = Inl Invalid_iface_type
   \<and> ip6_output_add_tunnel 0 edges_init 128 4 = Inl Invalid_iface_type
   \<and> ip6_output_add_tunnel 0 edges_init 5 4 = Inr example_edges
   \<and> ip6_output_add_tunnel 0 example_edges 5 6 = Inl Already_registered"
proof -
  have l: "length edges_init = 128" by (simp add: edges_init_def)
  have n: "edges_init ! 5 = ETH_OUTPUT" by (simp add: edges_init_def)
  note th = add_tunnel_abort_or_record [OF l, where undef = 0 and e = 4]
  from th [where t = 0] have a: "ip6_output_add_tunnel 0 edges_init 0 4 = Inl Invalid_iface_type"
    by simp
  from th [where t = 128]
  have b: "ip6_output_add_tunnel 0 edges_init 128 4 = Inl Invalid_iface_type"
    by simp
  from th [where t = 5] n
  have c: "ip6_output_add_tunnel 0 edges_init 5 4 = Inr example_edges"
    by (simp add: example_edges_def)
  from th [where t = 5 and ?e1.0 = 6] c
  have d: "ip6_output_add_tunnel 0 example_edges 5 6 = Inl Already_registered"
    by (simp add: ETH_OUTPUT_def)
  from l a b c d show ?thesis by simp
qed

subsection \<open>The ethernet metadata\<close>

lemma be16_ipv6_bytes:
  "mem_bytes16 le (RTE_BE16 le RTE_ETHER_TYPE_IPV6) = [0x86, 0xDD]"
  by (cases le) (simp_all add: mem_bytes16_def RTE_BE16_def RTE_ETHER_TYPE_IPV6_def)

lemma promote_dst_addr:
  "ip6_output_promote ops K s r m = (x, s1) \<Longrightarrow>
   dst_addr (mbuf_of s1 m') = dst_addr (mbuf_of s m')"
  by (auto simp: ip6_output_promote_def Let_def split: if_splits prod.splits option.splits)

lemma promote_enqueued:
  "ip6_output_promote ops K s r m = (x, s1) \<Longrightarrow> enqueued s1 = enqueued s"
  by (auto simp: ip6_output_promote_def Let_def split: if_splits prod.splits option.splits)

lemma promote_mcast:
  "rte_ipv6_addr_is_mcast (dst_addr (mbuf_of s m)) \<Longrightarrow>
   ip6_output_promote ops K s r m = (Some r, s)"
  by (simp add: ip6_output_promote_def)

lemma packet_to_hold:
  "nh (mbuf_of s m) = Some r \<Longrightarrow> iface_from_id ops (iface_id (nh_of s r)) = Some ifc \<Longrightarrow>
   unat (type_id ifc) < length edges \<Longrightarrow> edges ! unat (type_id ifc) = ETH_OUTPUT \<Longrightarrow>
   ip6_output_promote ops K s r m = (Some r1, s1) \<Longrightarrow>
   ip6_output_packet ops K edges (s, sent) m = ip6_output_hold K (s1, sent) ifc ETH_OUTPUT r1 m"
  by (simp add: ip6_output_packet_def)

lemma hold_ok_to_send:
  "maybe_hold_packet K s1 r1 m = Some (OK_TO_SEND, s2) \<Longrightarrow>
   ip6_output_hold K (s1, sent) ifc edge r1 m =
     Some (rte_node_enqueue_x1
             (s1\<lparr>mbuf_of := (mbuf_of s1)(m := (mbuf_of s1 m)\<lparr>eth_data := Some
                \<lparr>dst = (if rte_ipv6_addr_is_mcast (dst_addr (mbuf_of s1 m))
                        then rte_ether_mcast_from_ipv6 (dst_addr (mbuf_of s1 m))
                        else lladdr (nh_of s1 r1)),
                 ether_type = RTE_BE16 (little_endian_host K) RTE_ETHER_TYPE_IPV6,
                 iface = ifc\<rparr>\<rparr>)\<rparr>) edge m,
           sent + 1)"
  by (auto simp: ip6_output_hold_def maybe_hold_packet_def Let_def
           split: if_splits option.splits)

text \<open>C7. A packet that gets through to \<open>OK_TO_SEND\<close> (it has a next hop, the interface
  exists, its type has no override, the host route step yields the next hop \<open>r1\<close>, and
  \<open>maybe_hold_packet\<close> answers \<open>OK_TO_SEND\<close>) leaves on \<open>ETH_OUTPUT\<close>, counted as sent,
  with the interface, the ether type of IPv6 in network byte order, and as destination MAC
  the one derived from the multicast address or else the link-layer address of \<open>r1\<close>. A
  multicast destination gets there whatever the flags of its next hop.\<close>

theorem ok_to_send_eth_output:
  assumes "nh (mbuf_of s m) = Some r"
    and "iface_from_id ops (iface_id (nh_of s r)) = Some ifc"
    and "unat (type_id ifc) < length edges"
    and "edges ! unat (type_id ifc) = ETH_OUTPUT"
  shows "(\<forall>r1 s1 s2. ip6_output_promote ops K s r m = (Some r1, s1)
              \<and> maybe_hold_packet K s1 r1 m = Some (OK_TO_SEND, s2)
            \<longrightarrow> (\<exists>s3. ip6_output_packet ops K edges (s, sent) m = Some (s3, sent + 1)
                  \<and> enqueued s3 = enqueued s @ [(ETH_OUTPUT, m)]
                  \<and> eth_data (mbuf_of s3 m) = Some
                      \<lparr>dst = (if rte_ipv6_addr_is_mcast (dst_addr (mbuf_of s m))
                              then rte_ether_mcast_from_ipv6 (dst_addr (mbuf_of s m))
                              else lladdr (nh_of s1 r1)),
                       ether_type = RTE_BE16 (little_endian_host K) RTE_ETHER_TYPE_IPV6,
                       iface = ifc\<rparr>))
       \<and> mem_bytes16 (little_endian_host K)
            (RTE_BE16 (little_endian_host K) RTE_ETHER_TYPE_IPV6) = [0x86, 0xDD]
       \<and> (rte_ipv6_addr_is_mcast (dst_addr (mbuf_of s m))
            \<longrightarrow> (\<exists>s3. ip6_output_packet ops K edges (s, sent) m = Some (s3, sent + 1)
                  \<and> enqueued s3 = enqueued s @ [(ETH_OUTPUT, m)]
                  \<and> (\<exists>e. eth_data (mbuf_of s3 m) = Some e
                        \<and> dst e = rte_ether_mcast_from_ipv6 (dst_addr (mbuf_of s m)))))"
proof (intro conjI allI impI)
  fix r1 s1 s2
  assume a: "ip6_output_promote ops K s r m = (Some r1, s1)
              \<and> maybe_hold_packet K s1 r1 m = Some (OK_TO_SEND, s2)"
  then have p: "ip6_output_promote ops K s r m = (Some r1, s1)"
    and h: "maybe_hold_packet K s1 r1 m = Some (OK_TO_SEND, s2)" by simp_all
  have "ip6_output_packet ops K edges (s, sent) m
          = ip6_output_hold K (s1, sent) ifc ETH_OUTPUT r1 m"
    using assms p by (rule packet_to_hold)
  with hold_ok_to_send [OF h, of sent ifc ETH_OUTPUT]
    promote_dst_addr [OF p, of m] promote_enqueued [OF p]
  show "\<exists>s3. ip6_output_packet ops K edges (s, sent) m = Some (s3, sent + 1)
                  \<and> enqueued s3 = enqueued s @ [(ETH_OUTPUT, m)]
                  \<and> eth_data (mbuf_of s3 m) = Some
                      \<lparr>dst = (if rte_ipv6_addr_is_mcast (dst_addr (mbuf_of s m))
                              then rte_ether_mcast_from_ipv6 (dst_addr (mbuf_of s m))
                              else lladdr (nh_of s1 r1)),
                       ether_type = RTE_BE16 (little_endian_host K) RTE_ETHER_TYPE_IPV6,
                       iface = ifc\<rparr>"
    by (simp add: rte_node_enqueue_x1_def)
next
  show "mem_bytes16 (little_endian_host K)
            (RTE_BE16 (little_endian_host K) RTE_ETHER_TYPE_IPV6) = [0x86, 0xDD]"
    by (rule be16_ipv6_bytes)
next
  assume mc: "rte_ipv6_addr_is_mcast (dst_addr (mbuf_of s m))"
  then have p: "ip6_output_promote ops K s r m = (Some r, s)" by (rule promote_mcast)
  from mc have h: "maybe_hold_packet K s r m = Some (OK_TO_SEND, s)"
    by (simp add: maybe_hold_packet_ok)
  have "ip6_output_packet ops K edges (s, sent) m
          = ip6_output_hold K (s, sent) ifc ETH_OUTPUT r m"
    using assms p by (rule packet_to_hold)
  with hold_ok_to_send [OF h, of sent ifc ETH_OUTPUT] mc
  show "\<exists>s3. ip6_output_packet ops K edges (s, sent) m = Some (s3, sent + 1)
                  \<and> enqueued s3 = enqueued s @ [(ETH_OUTPUT, m)]
                  \<and> (\<exists>e. eth_data (mbuf_of s3 m) = Some e
                        \<and> dst e = rte_ether_mcast_from_ipv6 (dst_addr (mbuf_of s m)))"
    by (simp add: rte_node_enqueue_x1_def)
qed

lemma example_path:
  "nh (mbuf_of example_state 0) = Some 0" "nh (mbuf_of example_state 1) = Some 1"
  "nh (mbuf_of example_state 2) = Some 0" "nh (mbuf_of example_state 3) = Some 2"
  "iface_from_id example_ops (iface_id (nh_of example_state 0))
     = Some \<lparr>id_iface = 1, type_id = 1\<rparr>"
  "iface_from_id example_ops (iface_id (nh_of example_state 1))
     = Some \<lparr>id_iface = 2, type_id = 5\<rparr>"
  "iface_from_id example_ops (iface_id (nh_of example_state 2))
     = Some \<lparr>id_iface = 1, type_id = 1\<rparr>"
  "length example_edges = 128" "example_edges ! 1 = ETH_OUTPUT" "example_edges ! 5 = 4"
  "lladdr (nh_of example_state 2) = [2, 0, 0, 0, 0, 1]"
  "ip (nh_of example_state 0) = addr_net" "ip (nh_of example_state 1) = addr_net"
  "ip (nh_of example_state 2) = addr_host2"
  "flags (nh_of example_state 1) = 4"
  "dst_addr (mbuf_of example_state 1) = addr_host1"
  by (simp_all add: example_state_def example_nh_def example_mbuf_def example_ops_def
      example_edges_def edges_init_def)

lemma be16_ipv6_little_endian: "RTE_BE16 True RTE_ETHER_TYPE_IPV6 = 0xDD86"
  by (simp add: RTE_BE16_def RTE_ETHER_TYPE_IPV6_def)

lemma example_mcast_mac: "rte_ether_mcast_from_ipv6 addr_mcast = [0x33, 0x33, 0xff, 0, 0, 1]"
  by (simp add: rte_ether_mcast_from_ipv6_def addr_mcast_def)

theorem ok_to_send_eth_output_witness:
  "nh (mbuf_of example_state 3) = Some 2
   \<and> iface_from_id example_ops (iface_id (nh_of example_state 2))
       = Some \<lparr>id_iface = 1, type_id = 1\<rparr>
   \<and> unat (type_id \<lparr>id_iface = 1, type_id = 1\<rparr>) < length example_edges
   \<and> example_edges ! unat (type_id \<lparr>id_iface = 1, type_id = 1\<rparr>) = ETH_OUTPUT
   \<and> (\<exists>s3. ip6_output_packet example_ops example_consts example_edges (example_state, 0) 3
             = Some (s3, 1)
         \<and> enqueued s3 = [(ETH_OUTPUT, 3)]
         \<and> eth_data (mbuf_of s3 3)
             = Some \<lparr>dst = [2, 0, 0, 0, 0, 1], ether_type = 0xDD86,
                     iface = \<lparr>id_iface = 1, type_id = 1\<rparr>\<rparr>)
   \<and> flags (nh_of example_state 0) AND GR_IP6_NH_F_REACHABLE example_consts = 0
   \<and> (\<exists>s3. ip6_output_packet example_ops example_consts example_edges (example_state, 0) 2
             = Some (s3, 1)
         \<and> enqueued s3 = [(ETH_OUTPUT, 2)]
         \<and> (\<exists>e. eth_data (mbuf_of s3 2) = Some e \<and> dst e = [0x33, 0x33, 0xff, 0, 0, 1]))"
proof -
  let ?ifc = "\<lparr>id_iface = 1, type_id = 1\<rparr>"
  have r: "unat (type_id ?ifc) < length example_edges"
    "example_edges ! unat (type_id ?ifc) = ETH_OUTPUT"
    by (simp_all add: example_edges_def edges_init_def)
  have p: "ip6_output_promote example_ops example_consts example_state 2 3
             = (Some 2, example_state)"
    by (simp add: ip6_output_promote_def example_flags example_path example_consts_def
        rte_ipv6_addr_eq_def)
  have h: "maybe_hold_packet example_consts example_state 2 3
             = Some (OK_TO_SEND, example_state)"
    by (simp add: maybe_hold_packet_def example_flags example_consts_def)
  have a: "\<exists>s3. ip6_output_packet example_ops example_consts example_edges (example_state, 0) 3
             = Some (s3, 1)
         \<and> enqueued s3 = [(ETH_OUTPUT, 3)]
         \<and> eth_data (mbuf_of s3 3)
             = Some \<lparr>dst = [2, 0, 0, 0, 0, 1], ether_type = 0xDD86, iface = ?ifc\<rparr>"
    using ok_to_send_eth_output [OF example_path(4) example_path(7) r,
        where K = example_consts and sent = 0, THEN conjunct1, rule_format, of 2 example_state
        example_state] p h
    by (simp add: example_flags example_mcast example_path example_consts_def
        be16_ipv6_little_endian)
  have b: "\<exists>s3. ip6_output_packet example_ops example_consts example_edges (example_state, 0) 2
             = Some (s3, 1)
         \<and> enqueued s3 = [(ETH_OUTPUT, 2)]
         \<and> (\<exists>e. eth_data (mbuf_of s3 2) = Some e \<and> dst e = [0x33, 0x33, 0xff, 0, 0, 1])"
    using ok_to_send_eth_output [OF example_path(3) example_path(5) r,
        where K = example_consts and sent = 0, THEN conjunct2, THEN conjunct2]
    by (simp add: example_flags example_mcast example_mcast_mac)
  have c: "flags (nh_of example_state 0) AND GR_IP6_NH_F_REACHABLE example_consts = 0"
    by (simp add: example_flags example_consts_def)
  from a b c r example_path(4) example_path(7) show ?thesis by blast
qed

subsection \<open>The on-demand host route\<close>

lemma packet_promote_error:
  "nh (mbuf_of s m) = Some r \<Longrightarrow> iface_from_id ops (iface_id (nh_of s r)) = Some ifc \<Longrightarrow>
   unat (type_id ifc) < length edges \<Longrightarrow> edges ! unat (type_id ifc) = ETH_OUTPUT \<Longrightarrow>
   ip6_output_promote ops K s r m = (None, s1) \<Longrightarrow>
   ip6_output_packet ops K edges (s, sent) m = Some (rte_node_enqueue_x1 s1 ERROR m, sent)"
  by (simp add: ip6_output_packet_def)

lemma promote_new_fails:
  "flags (nh_of s r) AND GR_IP6_NH_F_LINK K \<noteq> 0 \<Longrightarrow>
   \<not> rte_ipv6_addr_is_mcast (dst_addr (mbuf_of s m)) \<Longrightarrow>
   \<not> rte_ipv6_addr_eq (dst_addr (mbuf_of s m)) (ip (nh_of s r)) \<Longrightarrow>
   ip6_nexthop_new ops (nh_of s, ctl s) (vrf_id (nh_of s r)) (iface_id (nh_of s r))
     (dst_addr (mbuf_of s m)) = (None, h1, c1) \<Longrightarrow>
   ip6_output_promote ops K s r m = (None, s\<lparr>nh_of := h1, ctl := c1\<rparr>)"
  by (simp add: ip6_output_promote_def)

lemma promote_insert:
  "flags (nh_of s r) AND GR_IP6_NH_F_LINK K \<noteq> 0 \<Longrightarrow>
   \<not> rte_ipv6_addr_is_mcast (dst_addr (mbuf_of s m)) \<Longrightarrow>
   \<not> rte_ipv6_addr_eq (dst_addr (mbuf_of s m)) (ip (nh_of s r)) \<Longrightarrow>
   ip6_nexthop_new ops (nh_of s, ctl s) (vrf_id (nh_of s r)) (iface_id (nh_of s r))
     (dst_addr (mbuf_of s m)) = (Some remote, h1, c1) \<Longrightarrow>
   ip6_route_insert ops (h1, c1) (vrf_id (h1 r)) (dst_addr (mbuf_of s m)) 128 remote
     = (rc, h2, c2) \<Longrightarrow>
   ip6_output_promote ops K s r m =
     (if rc < 0 then (None, s\<lparr>nh_of := h2, ctl := c2\<rparr>)
      else (Some remote,
            s\<lparr>nh_of := h2, ctl := c2,
              mbuf_of := (mbuf_of s)(m := (mbuf_of s m)\<lparr>nh := Some remote\<rparr>)\<rparr>))"
  by (simp add: ip6_output_promote_def RTE_IPV6_MAX_DEPTH_def)

text \<open>C4, as amended. For a packet that has come as far as the host route step (it has a
  next hop, the interface exists and its type has no override) with a next hop of flag
  \<open>LINK\<close> and a unicast destination other than the address of the next hop:
  \<^verbatim>\<open>ip6_nexthop_new\<close> is asked for a next hop for the destination, then
  \<^verbatim>\<open>ip6_route_insert\<close> for a route of prefix length 128 to it; when either fails the packet
  is enqueued on \<open>ERROR\<close>; otherwise hold processing goes on with the new next hop, which
  the packet's metadata now names.\<close>

theorem host_route_promotion:
  assumes "nh (mbuf_of s m) = Some r"
    and "iface_from_id ops (iface_id (nh_of s r)) = Some ifc"
    and "unat (type_id ifc) < length edges"
    and "edges ! unat (type_id ifc) = ETH_OUTPUT"
    and "flags (nh_of s r) AND GR_IP6_NH_F_LINK K \<noteq> 0"
    and "\<not> rte_ipv6_addr_is_mcast (dst_addr (mbuf_of s m))"
    and "\<not> rte_ipv6_addr_eq (dst_addr (mbuf_of s m)) (ip (nh_of s r))"
  shows "(\<forall>h1 c1.
            ip6_nexthop_new ops (nh_of s, ctl s) (vrf_id (nh_of s r)) (iface_id (nh_of s r))
              (dst_addr (mbuf_of s m)) = (None, h1, c1)
            \<longrightarrow> ip6_output_packet ops K edges (s, sent) m
                  = Some (rte_node_enqueue_x1 (s\<lparr>nh_of := h1, ctl := c1\<rparr>) ERROR m, sent))
       \<and> (\<forall>remote h1 c1 rc h2 c2.
            ip6_nexthop_new ops (nh_of s, ctl s) (vrf_id (nh_of s r)) (iface_id (nh_of s r))
              (dst_addr (mbuf_of s m)) = (Some remote, h1, c1)
            \<and> ip6_route_insert ops (h1, c1) (vrf_id (h1 r)) (dst_addr (mbuf_of s m)) 128 remote
                = (rc, h2, c2)
            \<longrightarrow> ip6_output_packet ops K edges (s, sent) m
                  = (if rc < 0
                     then Some (rte_node_enqueue_x1 (s\<lparr>nh_of := h2, ctl := c2\<rparr>) ERROR m, sent)
                     else ip6_output_hold K
                            (s\<lparr>nh_of := h2, ctl := c2,
                               mbuf_of := (mbuf_of s)(m := (mbuf_of s m)\<lparr>nh := Some remote\<rparr>)\<rparr>,
                             sent) ifc ETH_OUTPUT remote m))"
proof (intro conjI allI impI)
  fix h1 c1
  assume "ip6_nexthop_new ops (nh_of s, ctl s) (vrf_id (nh_of s r)) (iface_id (nh_of s r))
              (dst_addr (mbuf_of s m)) = (None, h1, c1)"
  with assms(5-7) have "ip6_output_promote ops K s r m = (None, s\<lparr>nh_of := h1, ctl := c1\<rparr>)"
    by (rule promote_new_fails)
  with assms(1-4) show "ip6_output_packet ops K edges (s, sent) m
                  = Some (rte_node_enqueue_x1 (s\<lparr>nh_of := h1, ctl := c1\<rparr>) ERROR m, sent)"
    by (rule packet_promote_error)
next
  fix remote h1 c1 rc h2 c2
  assume a: "ip6_nexthop_new ops (nh_of s, ctl s) (vrf_id (nh_of s r)) (iface_id (nh_of s r))
              (dst_addr (mbuf_of s m)) = (Some remote, h1, c1)
            \<and> ip6_route_insert ops (h1, c1) (vrf_id (h1 r)) (dst_addr (mbuf_of s m)) 128 remote
                = (rc, h2, c2)"
  note p = promote_insert [OF assms(5-7) a [THEN conjunct1] a [THEN conjunct2]]
  show "ip6_output_packet ops K edges (s, sent) m
                  = (if rc < 0
                     then Some (rte_node_enqueue_x1 (s\<lparr>nh_of := h2, ctl := c2\<rparr>) ERROR m, sent)
                     else ip6_output_hold K
                            (s\<lparr>nh_of := h2, ctl := c2,
                               mbuf_of := (mbuf_of s)(m := (mbuf_of s m)\<lparr>nh := Some remote\<rparr>)\<rparr>,
                             sent) ifc ETH_OUTPUT remote m)"
  proof (cases "rc < 0")
    case True
    with p have "ip6_output_promote ops K s r m = (None, s\<lparr>nh_of := h2, ctl := c2\<rparr>)"
      by simp
    with assms(1-4) True show ?thesis by (simp add: packet_promote_error)
  next
    case False
    with p have "ip6_output_promote ops K s r m =
        (Some remote, s\<lparr>nh_of := h2, ctl := c2,
              mbuf_of := (mbuf_of s)(m := (mbuf_of s m)\<lparr>nh := Some remote\<rparr>)\<rparr>)"
      by simp
    with assms(1-4) False show ?thesis by (simp add: packet_to_hold)
  qed
qed

lemma example_new:
  "ip6_nexthop_new example_ops (nh_of example_state, ctl example_state)
     (vrf_id (nh_of example_state 0)) (iface_id (nh_of example_state 0))
     (dst_addr (mbuf_of example_state 0))
   = (Some 4,
      (nh_of example_state)
          (4 := \<lparr>vrf_id = 0, iface_id = 1, ip = addr_host1, lladdr = replicate 6 0, flags = 0,
                 held_pkts_head = None, held_pkts_tail = None, held_pkts_num = 0\<rparr>),
      \<lparr>nh_used = 5, nh_pool_size = 8, routes = [], routes_max = 8\<rparr>)"
  by (simp add: example_ops_def pool_nexthop_new_def example_state_def example_nh_def
      example_mbuf_def)

lemma example_insert:
  "ip6_route_insert example_ops
     (h1, \<lparr>nh_used = 5, nh_pool_size = 8, routes = [], routes_max = 8\<rparr>) v a d r
   = (0, h1, \<lparr>nh_used = 5, nh_pool_size = 8, routes = [(v, a, d, r)], routes_max = 8\<rparr>)"
  by (simp add: example_ops_def table_route_insert_def)

lemma example_link:
  "flags (nh_of example_state 0) AND GR_IP6_NH_F_LINK example_consts \<noteq> 0"
  "\<not> rte_ipv6_addr_is_mcast (dst_addr (mbuf_of example_state 0))"
  "\<not> rte_ipv6_addr_eq (dst_addr (mbuf_of example_state 0)) (ip (nh_of example_state 0))"
  "flags (nh_of example_state 1) AND GR_IP6_NH_F_LINK example_consts \<noteq> 0"
  "\<not> rte_ipv6_addr_is_mcast (dst_addr (mbuf_of example_state 1))"
  "\<not> rte_ipv6_addr_eq (dst_addr (mbuf_of example_state 1)) (ip (nh_of example_state 1))"
  by (simp_all add: example_state_def example_nh_def example_mbuf_def example_consts_def
      rte_ipv6_addr_eq_def rte_ipv6_addr_is_mcast_def addr_host1_def addr_net_def)

lemma example_vrf: "vrf_id (nh_of example_state 0) = 0"
  by (simp add: example_state_def example_nh_def)

lemma example_type1:
  "unat (type_id \<lparr>id_iface = 1, type_id = 1\<rparr>) < length example_edges"
  "example_edges ! unat (type_id \<lparr>id_iface = 1, type_id = 1\<rparr>) = ETH_OUTPUT"
  by (simp_all add: example_edges_def edges_init_def)

theorem host_route_promotion_witness:
  "nh (mbuf_of example_state 0) = Some 0
   \<and> iface_from_id example_ops (iface_id (nh_of example_state 0))
       = Some \<lparr>id_iface = 1, type_id = 1\<rparr>
   \<and> unat (type_id \<lparr>id_iface = 1, type_id = 1\<rparr>) < length example_edges
   \<and> example_edges ! unat (type_id \<lparr>id_iface = 1, type_id = 1\<rparr>) = ETH_OUTPUT
   \<and> flags (nh_of example_state 0) AND GR_IP6_NH_F_LINK example_consts \<noteq> 0
   \<and> \<not> rte_ipv6_addr_is_mcast (dst_addr (mbuf_of example_state 0))
   \<and> \<not> rte_ipv6_addr_eq (dst_addr (mbuf_of example_state 0)) (ip (nh_of example_state 0))
   \<and> ip6_output_packet example_ops example_consts example_edges (example_state, 0) 0
       = ip6_output_hold example_consts (example_promoted, 0) \<lparr>id_iface = 1, type_id = 1\<rparr>
           ETH_OUTPUT 4 0
   \<and> nh (mbuf_of example_promoted 0) = Some 4
   \<and> routes (ctl example_promoted) = [(0, addr_host1, 128, 4)]"
proof -
  have e: "ip6_output_packet example_ops example_consts example_edges (example_state, 0) 0
       = ip6_output_hold example_consts (example_promoted, 0) \<lparr>id_iface = 1, type_id = 1\<rparr>
           ETH_OUTPUT 4 0"
    using host_route_promotion [OF example_path(1) example_path(5) example_type1 example_link(1-3),
        where sent = 0, THEN conjunct2, rule_format, OF conjI, OF example_new example_insert]
    by (simp add: example_promoted_def example_vrf example_flags)
  have "nh (mbuf_of example_promoted 0) = Some 4"
    "routes (ctl example_promoted) = [(0, addr_host1, 128, 4)]"
    by (simp_all add: example_promoted_def)
  with e example_path(1) example_path(5) example_type1 example_link(1-3)
  show ?thesis by simp
qed

text \<open>C4 as stated fails for packet 1: its next hop has \<open>LINK\<close>, its destination is unicast
  and is not the address of the next hop, a next hop and a route could be had, yet the
  interface type has a tunnel override and the packet leaves on that edge, with the tables
  and its metadata as they were.\<close>

theorem host_route_promotion_counterexample:
  "flags (nh_of example_state 1) AND GR_IP6_NH_F_LINK example_consts \<noteq> 0
   \<and> \<not> rte_ipv6_addr_is_mcast (dst_addr (mbuf_of example_state 1))
   \<and> \<not> rte_ipv6_addr_eq (dst_addr (mbuf_of example_state 1)) (ip (nh_of example_state 1))
   \<and> nh_used (ctl example_state) < nh_pool_size (ctl example_state)
   \<and> length (routes (ctl example_state)) < routes_max (ctl example_state)
   \<and> ip6_output_packet example_ops example_consts example_edges (example_state, 0) 1
       = Some (rte_node_enqueue_x1 example_state 4 1, 0)
   \<and> ctl (rte_node_enqueue_x1 example_state 4 1) = ctl example_state
   \<and> nh (mbuf_of (rte_node_enqueue_x1 example_state 4 1) 1) = Some 1
   \<and> enqueued (rte_node_enqueue_x1 example_state 4 1) = [(4, 1)]
   \<and> ERROR \<noteq> 4"
proof -
  have "ip6_output_packet example_ops example_consts example_edges (example_state, 0) 1
       = Some (rte_node_enqueue_x1 example_state 4 1, 0)"
    by (simp add: ip6_output_packet_def example_state_def example_nh_def example_mbuf_def
        example_ops_def example_edges_def edges_init_def ETH_OUTPUT_def)
  moreover have "nh_used (ctl example_state) < nh_pool_size (ctl example_state)"
    "length (routes (ctl example_state)) < routes_max (ctl example_state)"
    by (simp_all add: example_state_def)
  ultimately show ?thesis
    using example_link(4-6)
    by (simp add: rte_node_enqueue_x1_def example_state_def example_mbuf_def ERROR_def)
qed

text \<open>C10. On the host route path the packet's \<^verbatim>\<open>nh\<close> metadata is written only once
  \<^verbatim>\<open>ip6_nexthop_new\<close> and \<^verbatim>\<open>ip6_route_insert\<close> have both succeeded: when either fails, the
  packet is enqueued on \<open>ERROR\<close> and no packet has been written to, so that its metadata
  still names the next hop of the connected route; when both succeed, the metadata names
  the new next hop and hold processing goes on with it.\<close>

theorem promotion_nh_metadata:
  assumes "nh (mbuf_of s m) = Some r"
    and "iface_from_id ops (iface_id (nh_of s r)) = Some ifc"
    and "unat (type_id ifc) < length edges"
    and "edges ! unat (type_id ifc) = ETH_OUTPUT"
    and "flags (nh_of s r) AND GR_IP6_NH_F_LINK K \<noteq> 0"
    and "\<not> rte_ipv6_addr_is_mcast (dst_addr (mbuf_of s m))"
    and "\<not> rte_ipv6_addr_eq (dst_addr (mbuf_of s m)) (ip (nh_of s r))"
  shows "(\<forall>h1 c1.
            ip6_nexthop_new ops (nh_of s, ctl s) (vrf_id (nh_of s r)) (iface_id (nh_of s r))
              (dst_addr (mbuf_of s m)) = (None, h1, c1)
            \<longrightarrow> (\<exists>s1. ip6_output_packet ops K edges (s, sent) m = Some (s1, sent)
                    \<and> enqueued s1 = enqueued s @ [(ERROR, m)]
                    \<and> mbuf_of s1 = mbuf_of s \<and> nh (mbuf_of s1 m) = Some r))
       \<and> (\<forall>remote h1 c1 rc h2 c2.
            ip6_nexthop_new ops (nh_of s, ctl s) (vrf_id (nh_of s r)) (iface_id (nh_of s r))
              (dst_addr (mbuf_of s m)) = (Some remote, h1, c1)
            \<and> ip6_route_insert ops (h1, c1) (vrf_id (h1 r)) (dst_addr (mbuf_of s m)) 128 remote
                = (rc, h2, c2)
            \<and> rc < 0
            \<longrightarrow> (\<exists>s1. ip6_output_packet ops K edges (s, sent) m = Some (s1, sent)
                    \<and> enqueued s1 = enqueued s @ [(ERROR, m)]
                    \<and> mbuf_of s1 = mbuf_of s \<and> nh (mbuf_of s1 m) = Some r))
       \<and> (\<forall>remote h1 c1 rc h2 c2.
            ip6_nexthop_new ops (nh_of s, ctl s) (vrf_id (nh_of s r)) (iface_id (nh_of s r))
              (dst_addr (mbuf_of s m)) = (Some remote, h1, c1)
            \<and> ip6_route_insert ops (h1, c1) (vrf_id (h1 r)) (dst_addr (mbuf_of s m)) 128 remote
                = (rc, h2, c2)
            \<and> \<not> rc < 0
            \<longrightarrow> (\<exists>s1. ip6_output_promote ops K s r m = (Some remote, s1)
                    \<and> nh (mbuf_of s1 m) = Some remote
                    \<and> (\<forall>x. x \<noteq> m \<longrightarrow> mbuf_of s1 x = mbuf_of s x)
                    \<and> ip6_output_packet ops K edges (s, sent) m
                        = ip6_output_hold K (s1, sent) ifc ETH_OUTPUT remote m))"
proof (intro conjI allI impI)
  fix h1 c1
  assume "ip6_nexthop_new ops (nh_of s, ctl s) (vrf_id (nh_of s r)) (iface_id (nh_of s r))
              (dst_addr (mbuf_of s m)) = (None, h1, c1)"
  with assms(5-7) have "ip6_output_promote ops K s r m = (None, s\<lparr>nh_of := h1, ctl := c1\<rparr>)"
    by (rule promote_new_fails)
  with assms(1-4) have "ip6_output_packet ops K edges (s, sent) m
      = Some (rte_node_enqueue_x1 (s\<lparr>nh_of := h1, ctl := c1\<rparr>) ERROR m, sent)"
    by (rule packet_promote_error)
  with assms(1) show "\<exists>s1. ip6_output_packet ops K edges (s, sent) m = Some (s1, sent)
                    \<and> enqueued s1 = enqueued s @ [(ERROR, m)]
                    \<and> mbuf_of s1 = mbuf_of s \<and> nh (mbuf_of s1 m) = Some r"
    by (simp add: rte_node_enqueue_x1_def)
next
  fix remote h1 c1 rc h2 c2
  assume a: "ip6_nexthop_new ops (nh_of s, ctl s) (vrf_id (nh_of s r)) (iface_id (nh_of s r))
              (dst_addr (mbuf_of s m)) = (Some remote, h1, c1)
            \<and> ip6_route_insert ops (h1, c1) (vrf_id (h1 r)) (dst_addr (mbuf_of s m)) 128 remote
                = (rc, h2, c2)
            \<and> rc < 0"
  then have "ip6_output_promote ops K s r m = (None, s\<lparr>nh_of := h2, ctl := c2\<rparr>)"
    using promote_insert [OF assms(5-7), of ops remote h1 c1 rc h2 c2] by simp
  with assms(1-4) have "ip6_output_packet ops K edges (s, sent) m
      = Some (rte_node_enqueue_x1 (s\<lparr>nh_of := h2, ctl := c2\<rparr>) ERROR m, sent)"
    by (rule packet_promote_error)
  with assms(1) show "\<exists>s1. ip6_output_packet ops K edges (s, sent) m = Some (s1, sent)
                    \<and> enqueued s1 = enqueued s @ [(ERROR, m)]
                    \<and> mbuf_of s1 = mbuf_of s \<and> nh (mbuf_of s1 m) = Some r"
    by (simp add: rte_node_enqueue_x1_def)
next
  fix remote h1 c1 rc h2 c2
  assume a: "ip6_nexthop_new ops (nh_of s, ctl s) (vrf_id (nh_of s r)) (iface_id (nh_of s r))
              (dst_addr (mbuf_of s m)) = (Some remote, h1, c1)
            \<and> ip6_route_insert ops (h1, c1) (vrf_id (h1 r)) (dst_addr (mbuf_of s m)) 128 remote
                = (rc, h2, c2)
            \<and> \<not> rc < 0"
  let ?s1 = "s\<lparr>nh_of := h2, ctl := c2,
              mbuf_of := (mbuf_of s)(m := (mbuf_of s m)\<lparr>nh := Some remote\<rparr>)\<rparr>"
  from a have p: "ip6_output_promote ops K s r m = (Some remote, ?s1)"
    using promote_insert [OF assms(5-7), of ops remote h1 c1 rc h2 c2] by simp
  with assms(1-4) have "ip6_output_packet ops K edges (s, sent) m
      = ip6_output_hold K (?s1, sent) ifc ETH_OUTPUT remote m"
    by (rule packet_to_hold)
  with p show "\<exists>s1. ip6_output_promote ops K s r m = (Some remote, s1)
                    \<and> nh (mbuf_of s1 m) = Some remote
                    \<and> (\<forall>x. x \<noteq> m \<longrightarrow> mbuf_of s1 x = mbuf_of s x)
                    \<and> ip6_output_packet ops K edges (s, sent) m
                        = ip6_output_hold K (s1, sent) ifc ETH_OUTPUT remote m"
    by simp
qed

text \<open>With the pool of next hops used up, packet 0 goes to \<open>ERROR\<close> and keeps next hop 0;
  with room in the pool, it gets next hop 4.\<close>

theorem promotion_nh_metadata_witness:
  "nh (mbuf_of example_exhausted 0) = Some 0
   \<and> iface_from_id example_ops (iface_id (nh_of example_exhausted 0))
       = Some \<lparr>id_iface = 1, type_id = 1\<rparr>
   \<and> unat (type_id \<lparr>id_iface = 1, type_id = 1\<rparr>) < length example_edges
   \<and> example_edges ! unat (type_id \<lparr>id_iface = 1, type_id = 1\<rparr>) = ETH_OUTPUT
   \<and> flags (nh_of example_exhausted 0) AND GR_IP6_NH_F_LINK example_consts \<noteq> 0
   \<and> \<not> rte_ipv6_addr_is_mcast (dst_addr (mbuf_of example_exhausted 0))
   \<and> \<not> rte_ipv6_addr_eq (dst_addr (mbuf_of example_exhausted 0))
         (ip (nh_of example_exhausted 0))
   \<and> (\<exists>s1. ip6_output_packet example_ops example_consts example_edges (example_exhausted, 0) 0
              = Some (s1, 0)
          \<and> enqueued s1 = [(ERROR, 0)] \<and> nh (mbuf_of s1 0) = Some 0)
   \<and> (\<exists>s1. ip6_output_promote example_ops example_consts example_state 0 0 = (Some 4, s1)
          \<and> nh (mbuf_of s1 0) = Some 4)"
proof -
  have x: "nh (mbuf_of example_exhausted 0) = Some 0"
    "iface_from_id example_ops (iface_id (nh_of example_exhausted 0))
       = Some \<lparr>id_iface = 1, type_id = 1\<rparr>"
    "flags (nh_of example_exhausted 0) AND GR_IP6_NH_F_LINK example_consts \<noteq> 0"
    "\<not> rte_ipv6_addr_is_mcast (dst_addr (mbuf_of example_exhausted 0))"
    "\<not> rte_ipv6_addr_eq (dst_addr (mbuf_of example_exhausted 0))
         (ip (nh_of example_exhausted 0))"
    using example_path(1) example_path(5) example_link(1-3)
    by (simp_all add: example_exhausted_def)
  have n: "ip6_nexthop_new example_ops (nh_of example_exhausted, ctl example_exhausted)
     (vrf_id (nh_of example_exhausted 0)) (iface_id (nh_of example_exhausted 0))
     (dst_addr (mbuf_of example_exhausted 0))
     = (None, nh_of example_exhausted, ctl example_exhausted)"
    by (simp add: example_ops_def pool_nexthop_new_def example_exhausted_def example_state_def)
  have a: "\<exists>s1. ip6_output_packet example_ops example_consts example_edges
                (example_exhausted, 0) 0 = Some (s1, 0)
          \<and> enqueued s1 = [(ERROR, 0)] \<and> nh (mbuf_of s1 0) = Some 0"
    using promotion_nh_metadata [OF x(1) x(2) example_type1 x(3-5), where sent = 0,
        THEN conjunct1, rule_format, OF n]
    by (auto simp add: example_exhausted_def example_flags)
  have b: "\<exists>s1. ip6_output_promote example_ops example_consts example_state 0 0 = (Some 4, s1)
          \<and> nh (mbuf_of s1 0) = Some 4"
    using promotion_nh_metadata [OF example_path(1) example_path(5) example_type1
        example_link(1-3), where sent = 0, THEN conjunct2, THEN conjunct2, rule_format,
        OF conjI, OF example_new conjI, OF example_insert]
    by auto
  from x example_type1 a b show ?thesis by blast
qed

section \<open>Properties of the TX node\<close>

declare tx_process_loop.simps [simp del]

lemma tx_process_loop_no_burst:
  "tx_process_loop env objs i st = Some st' \<Longrightarrow>
   tx_bursts (snd (snd (snd st'))) = tx_bursts (snd (snd (snd st)))
   \<and> fst (snd (snd st')) = fst (snd (snd st))"
proof (induction env objs i st rule: tx_process_loop.induct)
  case (1 env objs i port burst_start count s)
  show ?case
  proof (cases "i < length objs")
    case False
    with "1.prems" show ?thesis by (simp add: tx_process_loop.simps)
  next
    case True
    note lt = this
    show ?thesis
    proof (cases "tx_mbuf_priv env (objs ! i)")
      case None
      with lt "1.prems" "1.IH"(1) show ?thesis
        by (simp add: tx_process_loop.simps rte_node_enqueue_def)
    next
      case (Some p)
      show ?thesis
      proof (cases "p = port")
        case True
        with lt Some "1.prems" "1.IH"(3) show ?thesis
          by (simp add: tx_process_loop.simps)
      next
        case False
        with lt Some "1.prems" "1.IH"(2) [of p i "(count, s)" count s] show ?thesis
          by (simp add: tx_process_loop.simps)
      qed
    qed
  qed
qed

text \<open>Whatever the burst, \<open>tx_process\<close> calls the driver at most once: the test
  \<^verbatim>\<open>burst_start != i\<close> inside the loop comes after \<^verbatim>\<open>burst_start = i\<close>.\<close>

lemma tx_process_at_most_one_burst:
  assumes "tx_process env s objs = Some (n, s')"
  shows "length (tx_bursts s') \<le> length (tx_bursts s) + 1"
proof -
  from assms obtain port burst_start count s1 where
    l: "tx_process_loop env objs 0 (UINT16_MAX, 0, 0, s) = Some (port, burst_start, count, s1)"
    by (auto simp: tx_process_def split: option.splits)
  from tx_process_loop_no_burst [OF l] have b: "tx_bursts s1 = tx_bursts s" by simp
  from assms l b show ?thesis
    by (auto simp: tx_process_def tx_burst_def Let_def rte_node_enqueue_def
             split: if_splits option.splits)
qed

text \<open>C2 fails on the code. A burst of two packets, the first for port 0 and the second for
  port 1, is two runs; the driver is called once, for port 1 with the second packet, and
  the first packet is neither sent nor enqueued on any edge.\<close>

theorem tx_process_drops_earlier_runs:
  "tx_process example_tx_env tx_idle [0, 1]
     = Some (1, \<lparr>tx_bursts = [(1, 3, [1])], tx_enqueued = []\<rparr>)"
  by (simp add: tx_process_def tx_process_loop.simps tx_burst_def objs_range_def
      example_tx_env_def tx_idle_def UINT16_MAX_def Let_def)

text \<open>A packet without TX metadata is enqueued on \<open>NO_PORT\<close> and stays inside the range
  given to the driver; a burst of such packets only makes \<open>tx_burst\<close> read
  \<^verbatim>\<open>txq_ids[UINT16_MAX]\<close>.\<close>

lemma tx_process_no_port_also_sent:
  "tx_process example_tx_env tx_idle [0, 5, 2]
     = Some (3, \<lparr>tx_bursts = [(0, 3, [0, 5, 2])], tx_enqueued = [(NO_PORT, [5])]\<rparr>)"
  by (simp add: tx_process_def tx_process_loop.simps tx_burst_def objs_range_def
      example_tx_env_def tx_idle_def UINT16_MAX_def Let_def rte_node_enqueue_def)

lemma tx_process_no_metadata_out_of_bounds:
  "tx_process example_tx_env tx_idle [5] = None"
  by (simp add: tx_process_def tx_process_loop.simps tx_burst_def objs_range_def
      example_tx_env_def tx_idle_def UINT16_MAX_def Let_def rte_node_enqueue_def)

section \<open>Properties of the queue assignment\<close>

subsection \<open>The model passes worker\_test.c\<close>

text \<open>The states of the tests, written out.\<close>

lemma st_existing_worker_value:
  "st_existing_worker =
     \<lparr>ports = [p2\<lparr>n_txq := 2\<rparr>, p1\<lparr>n_txq := 2\<rparr>, p0\<lparr>n_txq := 2\<rparr>],
      workers =
        [\<lparr>cpu_id = 2, started = True, rxqs = [q 2 0, q 2 1], txqs = [q 2 1, q 1 1, q 0 1]\<rparr>,
         \<lparr>cpu_id = 1, started = True, rxqs = [q 0 0, q 0 1, q 1 0, q 1 1],
          txqs = [q 2 0, q 1 0, q 0 0]\<rparr>]\<rparr>"
  by code_simp

lemma st_existing_worker_destroy1_value:
  "st_existing_worker_destroy1 =
     \<lparr>ports = [p2\<lparr>n_txq := 2\<rparr>, p1\<lparr>n_txq := 2\<rparr>, p0\<lparr>n_txq := 2\<rparr>],
      workers =
        [\<lparr>cpu_id = 2, started = True, rxqs = [q 2 1], txqs = [q 2 1, q 1 1, q 0 1]\<rparr>,
         \<lparr>cpu_id = 1, started = True, rxqs = [q 0 0, q 0 1, q 1 0, q 1 1, q 2 0],
          txqs = [q 2 0, q 1 0, q 0 0]\<rparr>]\<rparr>"
  unfolding st_existing_worker_destroy1_def st_existing_worker_value by code_simp

lemma st_existing_worker_destroy_value:
  "st_existing_worker_destroy =
     \<lparr>ports = [p2\<lparr>n_txq := 1\<rparr>, p1\<lparr>n_txq := 1\<rparr>, p0\<lparr>n_txq := 1\<rparr>],
      workers =
        [\<lparr>cpu_id = 1, started = True, rxqs = [q 0 0, q 0 1, q 1 0, q 1 1, q 2 0, q 2 1],
          txqs = [q 2 0, q 1 0, q 0 0]\<rparr>]\<rparr>"
  unfolding st_existing_worker_destroy_def st_existing_worker_destroy1_value by code_simp

lemma st_new_worker_value:
  "st_new_worker =
     \<lparr>ports = [p2\<lparr>n_txq := 2\<rparr>, p1\<lparr>n_txq := 2\<rparr>, p0\<lparr>n_txq := 2\<rparr>],
      workers =
        [\<lparr>cpu_id = 1, started = True, rxqs = [q 0 0, q 0 1, q 1 0, q 1 1, q 2 0],
          txqs = [q 2 1, q 1 1, q 0 1]\<rparr>,
         \<lparr>cpu_id = 2, started = True, rxqs = [q 2 1], txqs = [q 2 0, q 1 0, q 0 0]\<rparr>]\<rparr>"
  unfolding st_new_worker_def st_existing_worker_destroy_value by code_simp

lemma st_new_worker_destroy_value:
  "st_new_worker_destroy =
     \<lparr>ports = [p2\<lparr>n_txq := 2\<rparr>, p1\<lparr>n_txq := 2\<rparr>, p0\<lparr>n_txq := 2\<rparr>],
      workers =
        [\<lparr>cpu_id = 1, started = True, rxqs = [q 0 0, q 0 1, q 1 0, q 1 1, q 2 0],
          txqs = [q 2 1, q 1 1, q 0 1]\<rparr>,
         \<lparr>cpu_id = 3, started = True, rxqs = [q 2 1], txqs = [q 2 0, q 1 0, q 0 0]\<rparr>]\<rparr>"
  unfolding st_new_worker_destroy_def st_new_worker_value by code_simp

lemma st_new_worker2_value:
  "st_new_worker2 =
     \<lparr>ports = [p2\<lparr>n_txq := 3\<rparr>, p1\<lparr>n_txq := 3\<rparr>, p0\<lparr>n_txq := 3\<rparr>],
      workers =
        [\<lparr>cpu_id = 1, started = True, rxqs = [q 0 0, q 0 1, q 1 0, q 1 1],
          txqs = [q 2 2, q 1 2, q 0 2]\<rparr>,
         \<lparr>cpu_id = 3, started = True, rxqs = [q 2 1], txqs = [q 2 1, q 1 1, q 0 1]\<rparr>,
         \<lparr>cpu_id = 2, started = True, rxqs = [q 2 0], txqs = [q 2 0, q 1 0, q 0 0]\<rparr>]\<rparr>"
  unfolding st_new_worker2_def st_new_worker_destroy_value by code_simp

lemmas st_values =
  st_existing_worker_value st_existing_worker_destroy1_value st_existing_worker_destroy_value
  st_new_worker_value st_new_worker_destroy_value st_new_worker2_value

lemma test_rxq_assign_main_lcore:
  "fst (worker_rxq_assign (common_mocks\<lparr>rte_get_main_lcore := 4\<rparr>) test_setup 0 0 4) = - EBUSY"
  by code_simp

lemma test_rxq_assign_invalid_cpu:
  "fst (worker_rxq_assign (common_mocks\<lparr>numa_bitmask_isbitset := (\<lambda>_. False)\<rparr>)
          test_setup 0 0 9999) = - ERANGE"
  by code_simp

lemma test_rxq_assign_invalid_port:
  "fst (worker_rxq_assign common_mocks test_setup 9999 0 1) = - ENODEV"
  by code_simp

lemma test_rxq_assign_invalid_rxq:
  "fst (worker_rxq_assign common_mocks test_setup 0 9999 1) = - ENODEV"
  by code_simp

lemma test_rxq_assign_already_set:
  "fst (worker_rxq_assign common_mocks test_setup 1 1 2) = 0"
  by code_simp

lemma test_rxq_assign_existing_worker:
  "fst (worker_rxq_assign common_mocks test_setup 1 1 1) = 0
   \<and> worker_count st_existing_worker = 2
   \<and> assert_qmaps (rxqs_of st_existing_worker 1) [q 0 0, q 0 1, q 1 0, q 1 1]
   \<and> assert_qmaps (rxqs_of st_existing_worker 2) [q 2 1, q 2 0]
   \<and> assert_qmaps (rxqs_of st_existing_worker 3) []
   \<and> assert_qmaps (txqs_of st_existing_worker 1) [q 0 0, q 1 0, q 2 0]
   \<and> assert_qmaps (txqs_of st_existing_worker 2) [q 0 1, q 1 1, q 2 1]
   \<and> assert_qmaps (txqs_of st_existing_worker 3) []"
  unfolding st_values by code_simp

lemma test_rxq_assign_existing_worker_destroy:
  "fst (worker_rxq_assign common_mocks st_existing_worker 2 0 1) = 0
   \<and> worker_count st_existing_worker_destroy1 = 2
   \<and> assert_qmaps (rxqs_of st_existing_worker_destroy1 1)
        [q 0 0, q 0 1, q 1 0, q 1 1, q 2 0]
   \<and> assert_qmaps (rxqs_of st_existing_worker_destroy1 2) [q 2 1]
   \<and> assert_qmaps (rxqs_of st_existing_worker_destroy1 3) []
   \<and> assert_qmaps (txqs_of st_existing_worker_destroy1 1) [q 0 0, q 1 0, q 2 0]
   \<and> assert_qmaps (txqs_of st_existing_worker_destroy1 2) [q 0 1, q 1 1, q 2 1]
   \<and> assert_qmaps (txqs_of st_existing_worker_destroy1 3) []
   \<and> fst (worker_rxq_assign common_mocks st_existing_worker_destroy1 2 1 1) = 0
   \<and> worker_count st_existing_worker_destroy = 1
   \<and> assert_qmaps (rxqs_of st_existing_worker_destroy 1)
        [q 0 0, q 0 1, q 1 0, q 1 1, q 2 0, q 2 1]
   \<and> assert_qmaps (rxqs_of st_existing_worker_destroy 2) []
   \<and> assert_qmaps (rxqs_of st_existing_worker_destroy 3) []
   \<and> assert_qmaps (txqs_of st_existing_worker_destroy 1) [q 1 0, q 2 0, q 0 0]
   \<and> assert_qmaps (txqs_of st_existing_worker_destroy 2) []
   \<and> assert_qmaps (txqs_of st_existing_worker_destroy 3) []"
  unfolding st_values by code_simp

lemma test_rxq_assign_new_worker:
  "fst (worker_rxq_assign common_mocks st_existing_worker_destroy 2 1 2) = 0
   \<and> worker_count st_new_worker = 2
   \<and> assert_qmaps (rxqs_of st_new_worker 1) [q 0 0, q 0 1, q 1 0, q 1 1, q 2 0]
   \<and> assert_qmaps (rxqs_of st_new_worker 2) [q 2 1]
   \<and> assert_qmaps (rxqs_of st_new_worker 3) []
   \<and> assert_qmaps (txqs_of st_new_worker 1) [q 0 1, q 1 1, q 2 1]
   \<and> assert_qmaps (txqs_of st_new_worker 2) [q 0 0, q 1 0, q 2 0]
   \<and> assert_qmaps (txqs_of st_new_worker 3) []"
  unfolding st_values by code_simp

lemma test_rxq_assign_new_worker_destroy:
  "fst (worker_rxq_assign common_mocks st_new_worker 2 1 3) = 0
   \<and> worker_count st_new_worker_destroy = 2
   \<and> assert_qmaps (rxqs_of st_new_worker_destroy 1) [q 0 0, q 0 1, q 1 0, q 1 1, q 2 0]
   \<and> assert_qmaps (rxqs_of st_new_worker_destroy 2) []
   \<and> assert_qmaps (rxqs_of st_new_worker_destroy 3) [q 2 1]
   \<and> assert_qmaps (txqs_of st_new_worker_destroy 1) [q 0 1, q 1 1, q 2 1]
   \<and> assert_qmaps (txqs_of st_new_worker_destroy 2) []
   \<and> assert_qmaps (txqs_of st_new_worker_destroy 3) [q 0 0, q 1 0, q 2 0]"
  unfolding st_values by code_simp

lemma test_rxq_assign_new_worker2:
  "fst (worker_rxq_assign common_mocks st_new_worker_destroy 2 0 2) = 0
   \<and> worker_count st_new_worker2 = 3
   \<and> assert_qmaps (rxqs_of st_new_worker2 1) [q 0 0, q 0 1, q 1 0, q 1 1]
   \<and> assert_qmaps (rxqs_of st_new_worker2 2) [q 2 0]
   \<and> assert_qmaps (rxqs_of st_new_worker2 3) [q 2 1]
   \<and> assert_qmaps (txqs_of st_new_worker2 1) [q 0 2, q 1 2, q 2 2]
   \<and> assert_qmaps (txqs_of st_new_worker2 2) [q 0 0, q 1 0, q 2 0]
   \<and> assert_qmaps (txqs_of st_new_worker2 3) [q 0 1, q 1 1, q 2 1]"
  unfolding st_values by code_simp

subsection \<open>Validation\<close>

text \<open>C6. An unknown port, or a queue id not below \<^verbatim>\<open>n_rxq\<close> of the port, gives
  \<open>ENODEV\<close>; for a known queue, the main lcore gives \<open>EBUSY\<close> and any other CPU outside
  the allowance gives \<open>ERANGE\<close>; with each of these results the state is the one before
  the call.\<close>

theorem rxq_assign_validation:
  "(rxq_unknown s pid qid \<longrightarrow> worker_rxq_assign env s pid qid cpu = (- ENODEV, s))
   \<and> (\<not> rxq_unknown s pid qid \<and> cpu = rte_get_main_lcore env
        \<longrightarrow> worker_rxq_assign env s pid qid cpu = (- EBUSY, s))
   \<and> (\<not> rxq_unknown s pid qid \<and> cpu \<noteq> rte_get_main_lcore env
      \<and> \<not> numa_bitmask_isbitset env cpu
        \<longrightarrow> worker_rxq_assign env s pid qid cpu = (- ERANGE, s))
   \<and> (fst (worker_rxq_assign env s pid qid cpu) \<in> {- ENODEV, - EBUSY, - ERANGE}
        \<longrightarrow> snd (worker_rxq_assign env s pid qid cpu) = s)"
  by (auto simp: worker_rxq_assign_def rxq_unknown_def Let_def ENODEV_def EBUSY_def ERANGE_def
           split: option.splits if_splits)

text \<open>The four failing calls of the tests, on the fixture.\<close>

theorem rxq_assign_validation_witness:
  "rxq_unknown test_setup 9999 0
   \<and> worker_rxq_assign common_mocks test_setup 9999 0 1 = (- ENODEV, test_setup)
   \<and> rxq_unknown test_setup 0 9999
   \<and> worker_rxq_assign common_mocks test_setup 0 9999 1 = (- ENODEV, test_setup)
   \<and> \<not> rxq_unknown test_setup 0 0
   \<and> worker_rxq_assign (common_mocks\<lparr>rte_get_main_lcore := 4\<rparr>) test_setup 0 0 4
       = (- EBUSY, test_setup)
   \<and> worker_rxq_assign (common_mocks\<lparr>numa_bitmask_isbitset := (\<lambda>_. False)\<rparr>) test_setup 0 0 9999
       = (- ERANGE, test_setup)"
proof -
  have u: "rxq_unknown test_setup 9999 0" "rxq_unknown test_setup 0 9999"
    "\<not> rxq_unknown test_setup 0 0"
    by (simp_all add: rxq_unknown_def port_find_def test_setup_def p0_def p1_def p2_def)
  have m: "(4 :: 32 word) = rte_get_main_lcore (common_mocks\<lparr>rte_get_main_lcore := 4\<rparr>)"
    by simp
  have n: "(9999 :: 32 word)
             \<noteq> rte_get_main_lcore (common_mocks\<lparr>numa_bitmask_isbitset := (\<lambda>_. False)\<rparr>)"
    "\<not> numa_bitmask_isbitset (common_mocks\<lparr>numa_bitmask_isbitset := (\<lambda>_. False)\<rparr>) 9999"
    by (simp_all add: common_mocks_def)
  from rxq_assign_validation [of test_setup 9999 0 common_mocks 1] u(1)
  have a: "worker_rxq_assign common_mocks test_setup 9999 0 1 = (- ENODEV, test_setup)"
    by blast
  from rxq_assign_validation [of test_setup 0 9999 common_mocks 1] u(2)
  have b: "worker_rxq_assign common_mocks test_setup 0 9999 1 = (- ENODEV, test_setup)"
    by blast
  from rxq_assign_validation [of test_setup 0 0 "common_mocks\<lparr>rte_get_main_lcore := 4\<rparr>" 4]
    u(3) m
  have c: "worker_rxq_assign (common_mocks\<lparr>rte_get_main_lcore := 4\<rparr>) test_setup 0 0 4
       = (- EBUSY, test_setup)"
    by blast
  from rxq_assign_validation
    [of test_setup 0 0 "common_mocks\<lparr>numa_bitmask_isbitset := (\<lambda>_. False)\<rparr>" 9999] u(3) n
  have d: "worker_rxq_assign (common_mocks\<lparr>numa_bitmask_isbitset := (\<lambda>_. False)\<rparr>)
             test_setup 0 0 9999 = (- ERANGE, test_setup)"
    by blast
  from u a b c d show ?thesis by simp
qed

subsection \<open>Lists of workers\<close>



lemma worker_update_cpu_id [simp]:
  "(\<And>w. cpu_id (f w) = cpu_id w) \<Longrightarrow> map cpu_id (worker_update c f ws) = map cpu_id ws"
  by (induction ws) (auto simp: worker_update_def)

lemma worker_update_txqs:
  "(\<And>w. txqs (f w) = txqs w) \<Longrightarrow> map txqs (worker_update c f ws) = map txqs ws"
  by (induction ws) (auto simp: worker_update_def)


lemma rxq_remove_keeps [simp]:
  "cpu_id (rxq_remove pid qid w) = cpu_id w" "txqs (rxq_remove pid qid w) = txqs w"
  by (simp_all add: rxq_remove_def)

lemma rxq_append_keeps [simp]:
  "cpu_id (rxq_append pid qid w) = cpu_id w" "txqs (rxq_append pid qid w) = txqs w"
  by (simp_all add: rxq_append_def)

lemma txq_number_cpu_id [simp]: "map cpu_id (txq_number ps ws) = map cpu_id ws"
  by (induction ws) auto

lemma txq_number_length [simp]: "length (txq_number ps ws) = length ws"
  by (induction ws) auto




lemma worker_index_cong:
  "map cpu_id ws = map cpu_id vs \<Longrightarrow> worker_index ws c = worker_index vs c"
proof (induction ws arbitrary: vs)
  case Nil
  then show ?case by simp
next
  case (Cons w ws)
  then obtain v vs' where v: "vs = v # vs'" by (cases vs) auto
  with Cons.prems have "map cpu_id ws = map cpu_id vs'" "cpu_id w = cpu_id v" by simp_all
  moreover from this(1) have "length ws = length vs'" by (rule map_eq_imp_length_eq)
  ultimately show ?case using Cons.IH [of vs'] v by simp
qed





subsection \<open>What a successful call does to the list of workers\<close>







subsection \<open>Claims on the TX queue ids\<close>







end
